theory Spec2Isabelle
  imports Complex_Main "HOL-Library.Log_Nat"
begin

section \<open>Python floats\<close>

text \<open>
  Amounts, odds, balances and payouts are Python \<open>float\<close>s, that is IEEE 754 binary64
  values. A finite float is the rational number it denotes; the two infinities and
  NaN are separate values (the request model accepts them for \<open>amount\<close>). The only
  thing left out is the sign of zero, which none of the comparisons of the program
  can observe.

  Every arithmetic operation computes the exact rational result and rounds it to the
  nearest binary64 value, ties to even (\<open>to_double\<close>): 53 significant bits, exponents
  from \<open>-1022\<close> (below which the spacing stays \<open>2^-1074\<close>) and overflow to an
  infinity from \<open>2^1024\<close> on.
\<close>

datatype pyfloat = Fin rat | PInf | NInf | NaN

definition pow2 :: "int \<Rightarrow> rat" where
  "pow2 k = (if 0 \<le> k then 2 ^ nat k else 1 / 2 ^ nat (- k))"

definition round_half_even :: "rat \<Rightarrow> int" where
  "round_half_even x =
     (let f = \<lfloor>x\<rfloor>; r = x - of_int f
      in if r < 1 / 2 then f else if 1 / 2 < r then f + 1
         else if even f then f else f + 1)"

text \<open>The exponent \<open>e\<close> with \<open>2^e \<le> |x| < 2^(e+1)\<close>, for \<open>x \<noteq> 0\<close>.\<close>

definition binade :: "rat \<Rightarrow> int" where
  "binade x =
     (let (p, q) = quotient_of \<bar>x\<bar>; k = bitlen p - bitlen q
      in if pow2 k \<le> \<bar>x\<bar> then k else k - 1)"

definition to_double :: "rat \<Rightarrow> pyfloat" where
  "to_double x =
     (if x = 0 then Fin 0
      else let e = max (binade x) (- 1022);
               u = pow2 (e - 52);
               y = of_int (round_half_even (x / u)) * u
           in if pow2 1024 \<le> \<bar>y\<bar> then (if 0 < x then PInf else NInf) else Fin y)"

fun fsgn :: "pyfloat \<Rightarrow> int" where
  "fsgn (Fin a) = (if 0 < a then 1 else if a < 0 then - 1 else 0)"
| "fsgn PInf = 1"
| "fsgn NInf = - 1"
| "fsgn NaN = 0"

text \<open>\<open>x * y\<close>\<close>

definition fmul :: "pyfloat \<Rightarrow> pyfloat \<Rightarrow> pyfloat" where
  "fmul x y =
     (case (x, y) of
        (Fin a, Fin b) \<Rightarrow> to_double (a * b)
      | _ \<Rightarrow> (if x = NaN \<or> y = NaN \<or> fsgn x * fsgn y = 0 then NaN
              else if 0 < fsgn x * fsgn y then PInf else NInf))"

text \<open>\<open>x + y\<close>, also what the store's \<open>$inc\<close> does on two doubles\<close>

fun fadd :: "pyfloat \<Rightarrow> pyfloat \<Rightarrow> pyfloat" where
  "fadd (Fin a) (Fin b) = to_double (a + b)"
| "fadd NaN _ = NaN"
| "fadd _ NaN = NaN"
| "fadd PInf NInf = NaN"
| "fadd NInf PInf = NaN"
| "fadd PInf _ = PInf"
| "fadd _ PInf = PInf"
| "fadd NInf _ = NInf"
| "fadd _ NInf = NInf"

text \<open>\<open>-x\<close>\<close>

fun fneg :: "pyfloat \<Rightarrow> pyfloat" where
  "fneg (Fin a) = Fin (- a)"
| "fneg PInf = NInf"
| "fneg NInf = PInf"
| "fneg NaN = NaN"

text \<open>\<open>x < y\<close> and \<open>x <= y\<close>: every comparison with NaN is false.\<close>

fun flt :: "pyfloat \<Rightarrow> pyfloat \<Rightarrow> bool" where
  "flt (Fin a) (Fin b) = (a < b)"
| "flt NaN _ = False"
| "flt _ NaN = False"
| "flt _ NInf = False"
| "flt NInf _ = True"
| "flt PInf _ = False"
| "flt _ PInf = True"

definition fle :: "pyfloat \<Rightarrow> pyfloat \<Rightarrow> bool" where
  "fle x y = (flt x y \<or> (x = y \<and> x \<noteq> NaN))"

text \<open>
  \<open>round(x, 2)\<close>: infinities and NaN round to themselves; a finite float is converted
  to the decimal with two fractional digits nearest to its exact value (ties to the
  even digit), and that decimal is read back as a float.
\<close>

fun round2 :: "pyfloat \<Rightarrow> pyfloat" where
  "round2 (Fin a) = to_double (of_int (round_half_even (a * 100)) / 100)"
| "round2 x = x"

text \<open>A decimal literal of the source (\<open>1.9\<close>, \<open>1000.0\<close>) is the float nearest to it.\<close>

definition lit :: "rat \<Rightarrow> pyfloat" where
  "lit q = to_double q"


section \<open>Documents\<close>

text \<open>
  The store holds three collections of documents, \<open>bettor\<close>, \<open>event\<close> and \<open>bet\<close>.
  A field the program reads with \<open>doc.get(...)\<close> may be absent and is an option; a
  field it reads with \<open>doc[...]\<close>, filters on or only writes is present. An
  \<open>ObjectId\<close> is written as its 24 lowercase hexadecimal digits, so that \<open>str\<close> of
  an id is the id. Timestamps are readings of a clock, as natural numbers.
\<close>

type_synonym objectid = string

datatype error = HTTPException nat string | ValidationError | TypeError | DuplicateKeyError

record outcome_doc =
  name :: "string option"
  odds :: "pyfloat option"

record event_doc =
  title :: string
  category :: string
  start_time :: nat
  ev_status :: "string option"
  outcomes :: "outcome_doc list option"
  result :: "string option"
  ev_updated_at :: nat

record bettor_doc =
  display_name :: string
  balance :: "pyfloat option"
  bettor_updated_at :: nat

record bet_doc =
  user_id :: string
  event_id :: string
  outcome :: string
  amount :: "pyfloat option"
  odds_at_bet :: "pyfloat option"
  bet_status :: string
  potential_payout :: pyfloat
  settled_payout :: "pyfloat option"
  bet_updated_at :: "nat option"

text \<open>
  \<open>_id\<close> is unique in a collection. Bettors and events are found by \<open>_id\<close> only, so
  these collections are maps from the id; bets are also listed by a filter, so that
  collection is the list of its documents with their ids, in the order of insertion.
\<close>

record database =
  bettor :: "objectid \<rightharpoonup> bettor_doc"
  event :: "objectid \<rightharpoonup> event_doc"
  bet :: "(objectid \<times> bet_doc) list"

subsection \<open>Store operations\<close>

text \<open>\<open>update_one({"_id": k}, ...)\<close> on a map: no document with that id, no change.\<close>

definition update_one :: "objectid \<Rightarrow> ('v \<Rightarrow> 'v) \<Rightarrow> (objectid \<rightharpoonup> 'v) \<Rightarrow> (objectid \<rightharpoonup> 'v)" where
  "update_one k f m = (case m k of None \<Rightarrow> m | Some v \<Rightarrow> m(k \<mapsto> f v))"

text \<open>\<open>update_one({"_id": k}, ...)\<close> on the list of bets changes the first match.\<close>

fun update_one_bet :: "objectid \<Rightarrow> (bet_doc \<Rightarrow> bet_doc) \<Rightarrow> (objectid \<times> bet_doc) list \<Rightarrow> (objectid \<times> bet_doc) list" where
  "update_one_bet k f [] = []"
| "update_one_bet k f ((i, b) # bs) =
     (if i = k then (i, f b) # bs else (i, b) # update_one_bet k f bs)"

text \<open>\<open>update_many(filter, ...)\<close> changes every match.\<close>

definition update_many :: "(bet_doc \<Rightarrow> bool) \<Rightarrow> (bet_doc \<Rightarrow> bet_doc) \<Rightarrow> (objectid \<times> bet_doc) list \<Rightarrow> (objectid \<times> bet_doc) list" where
  "update_many P f bs = map (\<lambda>(i, b). if P b then (i, f b) else (i, b)) bs"

text \<open>
  \<open>{"$inc": {"balance": x}}\<close>: the store adds \<open>x\<close> to the field, and creates the field
  with the value \<open>x\<close> when the document has none.
\<close>

definition inc_balance :: "pyfloat \<Rightarrow> bettor_doc \<Rightarrow> bettor_doc" where
  "inc_balance x d = d\<lparr>balance := Some (case balance d of None \<Rightarrow> x | Some b \<Rightarrow> fadd b x)\<rparr>"

subsection \<open>Object ids\<close>

definition hexdigits :: "(char \<times> char) list" where
  "hexdigits =
     zip ''0123456789abcdefABCDEF'' ''0123456789abcdefabcdef''"

text \<open>
  \<open>bytes.fromhex\<close>, which \<open>ObjectId\<close> parses a string with: pairs of hexadecimal
  digits in either case, with any run of ASCII whitespace before, between and after the
  pairs and none inside a pair. The result is written here in lower-case digits, as
  \<open>str\<close> of the id gives it.
\<close>

definition isspace :: "char \<Rightarrow> bool" where
  "isspace c = (c \<in> set [CHR '' '', CHR 0x09, CHR 0x0A, CHR 0x0B, CHR 0x0C, CHR 0x0D])"

fun fromhex :: "string \<Rightarrow> string option" where
  "fromhex [] = Some []"
| "fromhex [c] = (if isspace c then Some [] else None)"
| "fromhex (c # d # cs) =
     (if isspace c then fromhex (d # cs)
      else (case (map_of hexdigits c, map_of hexdigits d) of
              (Some a, Some b) \<Rightarrow> map_option (\<lambda>r. a # b # r) (fromhex cs)
            | _ \<Rightarrow> None))"

text \<open>
  \<open>oid\<close>: \<open>ObjectId(val)\<close> takes a string of 24 characters that \<open>bytes.fromhex\<close>
  parses, and raises on anything else, which \<open>oid\<close> turns into status 400. A string of
  24 hexadecimal digits gives a 12-byte id; one with whitespace in it gives a shorter one.
\<close>

definition oid :: "string \<Rightarrow> error + objectid" where
  "oid val =
     (if length val = 24
      then (case fromhex val of
              None \<Rightarrow> Inl (HTTPException 400 ''Invalid ID format'')
            | Some h \<Rightarrow> Inr h)
      else Inl (HTTPException 400 ''Invalid ID format''))"

section \<open>Schemas\<close>

text \<open>
  The \<open>Bet\<close> model of the schemas validates its fields when it is built:
  \<open>amount\<close> with \<open>gt=0\<close>, \<open>odds_at_bet\<close> with \<open>gt=1.0\<close>, \<open>potential_payout\<close> with
  \<open>gt=0\<close>; \<open>status\<close> defaults to \<open>pending\<close> and \<open>settled_payout\<close> to \<open>None\<close>.
\<close>

definition Bet :: "string \<Rightarrow> string \<Rightarrow> string \<Rightarrow> pyfloat \<Rightarrow> pyfloat \<Rightarrow> pyfloat \<Rightarrow> error + bet_doc" where
  "Bet uid eid oc am od pp =
     (if flt (Fin 0) am \<and> flt (Fin 1) od \<and> flt (Fin 0) pp
      then Inr \<lparr>user_id = uid, event_id = eid, outcome = oc, amount = Some am,
                odds_at_bet = Some od, bet_status = ''pending'', potential_payout = pp,
                settled_payout = None, bet_updated_at = None\<rparr>
      else Inl ValidationError)"

text \<open>
  Modelled from the spec: \<open>create_document\<close> belongs to the repository's \<open>database\<close>
  module, which is not among the sources. The spec has it as \<open>insertBet(bet) -> Id\<close>,
  persisting the new bet and returning its id. The id is the one the store's driver
  generates for the insertion (\<open>new_id\<close>); the store refuses an id it already holds.
\<close>

definition create_document :: "database \<Rightarrow> objectid \<Rightarrow> bet_doc \<Rightarrow> error + string \<times> database" where
  "create_document db new_id doc =
     (if map_of (bet db) new_id \<noteq> None then Inl DuplicateKeyError
      else Inr (new_id, db\<lparr>bet := bet db @ [(new_id, doc)]\<rparr>))"

section \<open>Requests\<close>

record PlaceBet =
  pb_bettor_id :: string
  pb_event_id :: string
  pb_outcome :: string
  pb_amount :: pyfloat

record SettleEvent =
  se_event_id :: string
  se_result :: string

section \<open>Placing a bet\<close>

text \<open>
  \<open>place_bet\<close> returns what the endpoint returns or raises, and the store afterwards.
  \<open>new_id\<close> is the id of the inserted bet and \<open>now\<close> the clock.
\<close>

fun place_bet :: "database option \<Rightarrow> objectid \<Rightarrow> nat \<Rightarrow> PlaceBet \<Rightarrow> (error + string \<times> pyfloat) \<times> database option" where
  "place_bet None new_id now payload =
     (Inl (HTTPException 503 ''Database not configured''), None)"
| "place_bet (Some db) new_id now payload =
     (case oid (pb_bettor_id payload) of
        Inl e \<Rightarrow> (Inl e, Some db)
      | Inr bettor_oid \<Rightarrow>
     (case bettor db bettor_oid of
        None \<Rightarrow> (Inl (HTTPException 404 ''Bettor not found''), Some db)
      | Some bettor_d \<Rightarrow>
     (case oid (pb_event_id payload) of
        Inl e \<Rightarrow> (Inl e, Some db)
      | Inr event_oid \<Rightarrow>
     (case event db event_oid of
        None \<Rightarrow> (Inl (HTTPException 404 ''Event not found''), Some db)
      | Some ev \<Rightarrow>
     if ev_status ev \<noteq> Some ''open''
     then (Inl (HTTPException 400 ''Event not open for betting''), Some db)
     else
     (case find (\<lambda>oc. name oc = Some (pb_outcome payload))
                (case outcomes ev of None \<Rightarrow> [] | Some os \<Rightarrow> os) of
        None \<Rightarrow> (Inl (HTTPException 400 ''Invalid outcome for this event''), Some db)
      | Some chosen \<Rightarrow>
     if fle (pb_amount payload) (Fin 0)
     then (Inl (HTTPException 400 ''Invalid bet amount''), Some db)
     else if flt (case balance bettor_d of None \<Rightarrow> Fin 1000 | Some b \<Rightarrow> b) (pb_amount payload)
     then (Inl (HTTPException 400 ''Insufficient balance''), Some db)
     else
     (case odds chosen of
        None \<Rightarrow> (Inl TypeError, Some db)
      | Some od \<Rightarrow>
     (case Bet bettor_oid event_oid (pb_outcome payload) (pb_amount payload) od
                (round2 (fmul (pb_amount payload) od)) of
        Inl e \<Rightarrow> (Inl e, Some db)
      | Inr b \<Rightarrow>
     (case create_document db new_id b of
        Inl e \<Rightarrow> (Inl e, Some db)
      | Inr (bet_id, db1) \<Rightarrow>
          (Inr (bet_id, round2 (fmul (pb_amount payload) od)),
           Some (db1\<lparr>bettor :=
             update_one bettor_oid
               (\<lambda>d. (inc_balance (fneg (pb_amount payload)) d)\<lparr>bettor_updated_at := now\<rparr>)
               (bettor db1)\<rparr>))))))))))"

section \<open>Settling an event\<close>

text \<open>
  \<open>payout_of\<close>: \<open>round(float(b.get("amount", 0)) * float(b.get("odds_at_bet", 0)), 2)\<close>.
\<close>

definition payout_of :: "bet_doc \<Rightarrow> pyfloat" where
  "payout_of b =
     round2 (fmul (case amount b of None \<Rightarrow> Fin 0 | Some a \<Rightarrow> a)
                  (case odds_at_bet b of None \<Rightarrow> Fin 0 | Some a \<Rightarrow> a))"

text \<open>The two \<open>$set\<close> updates of a bet.\<close>

definition set_won :: "pyfloat \<Rightarrow> nat \<Rightarrow> bet_doc \<Rightarrow> bet_doc" where
  "set_won payout now d =
     d\<lparr>bet_status := ''won'', settled_payout := Some payout, bet_updated_at := Some now\<rparr>"

definition set_lost :: "nat \<Rightarrow> bet_doc \<Rightarrow> bet_doc" where
  "set_lost now d =
     d\<lparr>bet_status := ''lost'', settled_payout := Some (Fin 0), bet_updated_at := Some now\<rparr>"

text \<open>
  The loop over the winning bets. Each bet of the list is the document as it was
  read before the loop, and the payout is computed from it. The bet is written first;
  then its \<open>user_id\<close> is parsed, which raises on a malformed id and leaves the loop
  with the writes made so far; then the bettor is credited.
\<close>

fun pay_out :: "database \<Rightarrow> nat \<Rightarrow> (objectid \<times> bet_doc) list \<Rightarrow> (error + unit) \<times> database" where
  "pay_out db now [] = (Inr (), db)"
| "pay_out db now ((i, b) # bs) =
     (let db1 = db\<lparr>bet := update_one_bet i (set_won (payout_of b) now) (bet db)\<rparr>
      in case oid (user_id b) of
           Inl e \<Rightarrow> (Inl e, db1)
         | Inr u \<Rightarrow>
             pay_out (db1\<lparr>bettor := update_one u (inc_balance (payout_of b)) (bettor db1)\<rparr>) now bs)"

fun settle_event :: "database option \<Rightarrow> nat \<Rightarrow> SettleEvent \<Rightarrow> (error + string) \<times> database option" where
  "settle_event None now payload =
     (Inl (HTTPException 503 ''Database not configured''), None)"
| "settle_event (Some db) now payload =
     (case oid (se_event_id payload) of
        Inl e \<Rightarrow> (Inl e, Some db)
      | Inr ev_oid \<Rightarrow>
     (case event db ev_oid of
        None \<Rightarrow> (Inl (HTTPException 404 ''Event not found''), Some db)
      | Some ev \<Rightarrow>
     if \<not> list_ex (\<lambda>oc. name oc = Some (se_result payload))
                  (case outcomes ev of None \<Rightarrow> [] | Some os \<Rightarrow> os)
     then (Inl (HTTPException 400 ''Result is not a valid outcome''), Some db)
     else
     (let db1 = db\<lparr>event := update_one ev_oid
                   (\<lambda>d. d\<lparr>ev_status := Some ''settled'', result := Some (se_result payload),
                           ev_updated_at := now\<rparr>) (event db)\<rparr>;
          winning_bets = filter (\<lambda>(i, b). event_id b = ev_oid \<and> outcome b = se_result payload)
                                (bet db1)
      in case pay_out db1 now winning_bets of
           (Inl e, db2) \<Rightarrow> (Inl e, Some db2)
         | (Inr _, db2) \<Rightarrow>
             (Inr ''settled'',
              Some (db2\<lparr>bet := update_many
                      (\<lambda>b. event_id b = ev_oid \<and> outcome b \<noteq> se_result payload)
                      (set_lost now) (bet db2)\<rparr>)))))"

text \<open>
  For stating what a settlement credits: the winning bets of an event that belong to
  one bettor, in the order of the collection.
\<close>

definition wins_of :: "objectid \<Rightarrow> string \<Rightarrow> objectid \<Rightarrow> (objectid \<times> bet_doc) list \<Rightarrow> (objectid \<times> bet_doc) list" where
  "wins_of eo r u bs =
     filter (\<lambda>(i, b). event_id b = eo \<and> outcome b = r \<and> oid (user_id b) = Inr u) bs"

section \<open>The seeded event and a small store\<close>

text \<open>
  The first event of \<open>seed_events\<close>, and stores with that event and three bettors:
  Ann and Bob as \<open>create_bettor\<close> makes them (balance \<open>1000.0\<close>), and Cyd, whose
  document has no balance field. Ann stakes 100 on Team Red (\<open>db_ann\<close>), then Bob
  stakes 50 on Draw (\<open>db_bets\<close>), then the event is settled for Team Red
  (\<open>db_settled\<close>).
\<close>

definition seed_event :: "nat \<Rightarrow> event_doc" where
  "seed_event now =
     \<lparr>title = ''Team Red vs Team Blue'', category = ''Soccer'', start_time = now,
      ev_status = Some ''open'',
      outcomes = Some [\<lparr>name = Some ''Team Red'', odds = Some (lit (19 / 10))\<rparr>,
                       \<lparr>name = Some ''Draw'', odds = Some (lit (32 / 10))\<rparr>,
                       \<lparr>name = Some ''Team Blue'', odds = Some (lit (21 / 10))\<rparr>],
      result = None, ev_updated_at = now\<rparr>"

definition ev1 :: objectid where "ev1 = ''0000000000000000000000e1''"
definition ann :: objectid where "ann = ''0000000000000000000000a1''"
definition bob :: objectid where "bob = ''0000000000000000000000b2''"
definition cyd :: objectid where "cyd = ''0000000000000000000000c3''"
definition bet1 :: objectid where "bet1 = ''000000000000000000000101''"
definition bet2 :: objectid where "bet2 = ''000000000000000000000102''"

definition bettors :: "pyfloat \<Rightarrow> nat \<Rightarrow> pyfloat \<Rightarrow> nat \<Rightarrow> (objectid \<rightharpoonup> bettor_doc)" where
  "bettors a ta b tb =
     [ann \<mapsto> \<lparr>display_name = ''Ann'', balance = Some a, bettor_updated_at = ta\<rparr>,
      bob \<mapsto> \<lparr>display_name = ''Bob'', balance = Some b, bettor_updated_at = tb\<rparr>,
      cyd \<mapsto> \<lparr>display_name = ''Cyd'', balance = None, bettor_updated_at = 0\<rparr>]"

definition db_seed :: database where
  "db_seed =
     \<lparr>bettor = bettors (lit 1000) 0 (lit 1000) 0, event = [ev1 \<mapsto> seed_event 0], bet = []\<rparr>"

definition ann_red :: PlaceBet where
  "ann_red = \<lparr>pb_bettor_id = ann, pb_event_id = ev1, pb_outcome = ''Team Red'',
              pb_amount = lit 100\<rparr>"

definition bob_draw :: PlaceBet where
  "bob_draw = \<lparr>pb_bettor_id = bob, pb_event_id = ev1, pb_outcome = ''Draw'',
               pb_amount = lit 50\<rparr>"

definition red_wins :: SettleEvent where
  "red_wins = \<lparr>se_event_id = ev1, se_result = ''Team Red''\<rparr>"

definition bet_ann :: bet_doc where
  "bet_ann =
     \<lparr>user_id = ann, event_id = ev1, outcome = ''Team Red'', amount = Some (Fin 100),
      odds_at_bet = Some (lit (19 / 10)), bet_status = ''pending'',
      potential_payout = Fin 190, settled_payout = None, bet_updated_at = None\<rparr>"

definition bet_bob :: bet_doc where
  "bet_bob =
     \<lparr>user_id = bob, event_id = ev1, outcome = ''Draw'', amount = Some (Fin 50),
      odds_at_bet = Some (lit (32 / 10)), bet_status = ''pending'',
      potential_payout = Fin 160, settled_payout = None, bet_updated_at = None\<rparr>"

definition db_ann :: database where
  "db_ann =
     \<lparr>bettor = bettors (Fin 900) 1 (lit 1000) 0, event = [ev1 \<mapsto> seed_event 0],
      bet = [(bet1, bet_ann)]\<rparr>"

definition db_bets :: database where
  "db_bets =
     \<lparr>bettor = bettors (Fin 900) 1 (Fin 950) 2, event = [ev1 \<mapsto> seed_event 0],
      bet = [(bet1, bet_ann), (bet2, bet_bob)]\<rparr>"

definition settled_event :: "nat \<Rightarrow> event_doc" where
  "settled_event now =
     (seed_event 0)\<lparr>ev_status := Some ''settled'', result := Some ''Team Red'',
                    ev_updated_at := now\<rparr>"

definition db_settled :: "pyfloat \<Rightarrow> nat \<Rightarrow> database" where
  "db_settled a now =
     \<lparr>bettor = bettors a 1 (Fin 950) 2, event = [ev1 \<mapsto> settled_event now],
      bet = [(bet1, bet_ann\<lparr>bet_status := ''won'', settled_payout := Some (Fin 190),
                            bet_updated_at := Some now\<rparr>),
             (bet2, bet_bob\<lparr>bet_status := ''lost'', settled_payout := Some (Fin 0),
                            bet_updated_at := Some now\<rparr>)]\<rparr>"

text \<open>
  The store \<open>db_ann\<close> with the balance of Ann at \<open>2.0 ** 62\<close>, where two neighbouring
  floats are 1024 apart, and that store after a settlement for Team Red.
\<close>

definition db_big :: database where
  "db_big =
     \<lparr>bettor = bettors (Fin 4611686018427387904) 1 (lit 1000) 0,
      event = [ev1 \<mapsto> seed_event 0], bet = [(bet1, bet_ann)]\<rparr>"

definition db_big_settled :: "nat \<Rightarrow> database" where
  "db_big_settled now =
     \<lparr>bettor = bettors (Fin 4611686018427387904) 1 (lit 1000) 0,
      event = [ev1 \<mapsto> settled_event now],
      bet = [(bet1, bet_ann\<lparr>bet_status := ''won'', settled_payout := Some (Fin 190),
                            bet_updated_at := Some now\<rparr>)]\<rparr>"

text \<open>Requests that are refused, and a request of the bettor without a balance field.\<close>

definition ann_tiny :: PlaceBet where
  "ann_tiny = \<lparr>pb_bettor_id = ann, pb_event_id = ev1, pb_outcome = ''Team Red'',
               pb_amount = lit (1 / 1000)\<rparr>"

definition ann_2000 :: PlaceBet where
  "ann_2000 = \<lparr>pb_bettor_id = ann, pb_event_id = ev1, pb_outcome = ''Team Red'',
               pb_amount = lit 2000\<rparr>"

definition late_bet :: PlaceBet where
  "late_bet = \<lparr>pb_bettor_id = ann, pb_event_id = ev1, pb_outcome = ''Nobody'',
               pb_amount = Fin (- 5)\<rparr>"

definition cyd_1000 :: PlaceBet where
  "cyd_1000 = \<lparr>pb_bettor_id = cyd, pb_event_id = ev1, pb_outcome = ''Team Red'',
               pb_amount = lit 1000\<rparr>"

definition nobody_wins :: SettleEvent where
  "nobody_wins = \<lparr>se_event_id = ev1, se_result = ''Nobody''\<rparr>"

text \<open>
  The seeded event after the odds of Team Red have been changed to 5.0, the event
  collection with it, and the store \<open>db_ann\<close> with that collection after a settlement
  for Team Red.
\<close>

definition repriced_event :: event_doc where
  "repriced_event =
     (seed_event 0)\<lparr>outcomes :=
        Some [\<lparr>name = Some ''Team Red'', odds = Some (lit 5)\<rparr>,
              \<lparr>name = Some ''Draw'', odds = Some (lit (32 / 10))\<rparr>,
              \<lparr>name = Some ''Team Blue'', odds = Some (lit (21 / 10))\<rparr>]\<rparr>"

definition repriced :: "objectid \<rightharpoonup> event_doc" where
  "repriced = [ev1 \<mapsto> repriced_event]"

definition db_repriced_settled :: "nat \<Rightarrow> database" where
  "db_repriced_settled now =
     \<lparr>bettor = bettors (Fin 1090) 1 (lit 1000) 0,
      event = [ev1 \<mapsto> repriced_event\<lparr>ev_status := Some ''settled'',
                 result := Some ''Team Red'', ev_updated_at := now\<rparr>],
      bet = [(bet1, bet_ann\<lparr>bet_status := ''won'', settled_payout := Some (Fin 190),
                            bet_updated_at := Some now\<rparr>)]\<rparr>"

text \<open>The store \<open>db_ann\<close>, with the one bet of Ann, after a settlement for Team Red.\<close>

definition db_ann_settled :: "nat \<Rightarrow> database" where
  "db_ann_settled now =
     \<lparr>bettor = bettors (Fin 1090) 1 (lit 1000) 0, event = [ev1 \<mapsto> settled_event now],
      bet = [(bet1, bet_ann\<lparr>bet_status := ''won'', settled_payout := Some (Fin 190),
                            bet_updated_at := Some now\<rparr>)]\<rparr>"

section \<open>Evaluation of the floats and ids of the small store\<close>

lemma lit_1000: "lit 1000 = Fin 1000"
  by code_simp

lemma lit_100: "lit 100 = Fin 100"
  by code_simp

lemma lit_50: "lit 50 = Fin 50"
  by code_simp

lemma lit_red: "lit (19 / 10) = Fin (4278419646001971 / 2251799813685248)"
  by code_simp

lemma lit_draw: "lit (16 / 5) = Fin (3602879701896397 / 1125899906842624)"
  by code_simp

lemma mul_red: "fmul (Fin 100) (Fin (4278419646001971 / 2251799813685248)) = Fin 190"
  by code_simp

lemma mul_draw: "fmul (Fin 50) (Fin (3602879701896397 / 1125899906842624)) = Fin 160"
  by code_simp

lemma round2_190: "round2 (Fin 190) = Fin 190"
  by code_simp

lemma round2_160: "round2 (Fin 160) = Fin 160"
  by code_simp

lemma sub_1000_100: "fadd (Fin 1000) (Fin (- 100)) = Fin 900"
  by code_simp

lemma sub_1000_50: "fadd (Fin 1000) (Fin (- 50)) = Fin 950"
  by code_simp

lemma add_900_190: "fadd (Fin 900) (Fin 190) = Fin 1090"
  by code_simp

lemma add_1090_190: "fadd (Fin 1090) (Fin 190) = Fin 1280"
  by code_simp

lemma lit_tiny: "lit (1 / 1000) = Fin (1152921504606847 / 1152921504606846976)"
  by code_simp

lemma mul_tiny:
  "fmul (Fin (1152921504606847 / 1152921504606846976))
        (Fin (4278419646001971 / 2251799813685248)) =
   Fin (8762203435012037 / 4611686018427387904)"
  by code_simp

lemma round2_tiny: "round2 (Fin (8762203435012037 / 4611686018427387904)) = Fin 0"
  by code_simp

lemma lit_2000: "lit 2000 = Fin 2000"
  by code_simp

lemma add_big_190: "fadd (Fin 4611686018427387904) (Fin 190) = Fin 4611686018427387904"
  by code_simp

lemma oid_ev1: "oid ev1 = Inr ev1"
  by (simp add: oid_def ev1_def hexdigits_def isspace_def)

lemma oid_ann: "oid ann = Inr ann"
  by (simp add: oid_def ann_def hexdigits_def isspace_def)

lemma oid_bob: "oid bob = Inr bob"
  by (simp add: oid_def bob_def hexdigits_def isspace_def)

lemma oid_cyd: "oid cyd = Inr cyd"
  by (simp add: oid_def cyd_def hexdigits_def isspace_def)

lemma ids_differ:
  "ann \<noteq> bob" "bob \<noteq> ann" "ann \<noteq> cyd" "cyd \<noteq> ann" "bob \<noteq> cyd" "cyd \<noteq> bob"
  "bet1 \<noteq> bet2" "bet2 \<noteq> bet1"
  by (simp_all add: ann_def bob_def cyd_def bet1_def bet2_def)

lemmas float_evals =
  lit_1000 lit_100 lit_50 lit_red lit_draw mul_red mul_draw round2_190 round2_160
  sub_1000_100 sub_1000_50 add_900_190 add_1090_190 lit_tiny mul_tiny round2_tiny lit_2000
  add_big_190

lemmas id_evals = oid_ev1 oid_ann oid_bob oid_cyd ids_differ

section \<open>Comparisons\<close>

lemma flt_not_fle: "flt x y \<Longrightarrow> \<not> fle y x"
  by (cases x; cases y) (auto simp: fle_def)

lemma fle_not_flt: "fle x y \<Longrightarrow> \<not> flt y x"
  by (cases x; cases y) (auto simp: fle_def)

section \<open>Placing a bet: what a placement does\<close>

text \<open>
  The placement that goes through. The hypotheses are the checks of \<open>place_bet\<close> in
  the order it makes them, then what the \<open>Bet\<close> model validates, then that the store
  accepts the new id.
\<close>

lemma place_bet_success:
  assumes "oid (pb_bettor_id p) = Inr bo" and "bettor db bo = Some bd"
    and "oid (pb_event_id p) = Inr eo" and "event db eo = Some ev"
    and "ev_status ev = Some ''open''"
    and "find (\<lambda>oc. name oc = Some (pb_outcome p))
           (case outcomes ev of None \<Rightarrow> [] | Some os \<Rightarrow> os) = Some chosen"
    and "\<not> fle (pb_amount p) (Fin 0)"
    and "\<not> flt (case balance bd of None \<Rightarrow> Fin 1000 | Some b \<Rightarrow> b) (pb_amount p)"
    and "odds chosen = Some od"
    and "flt (Fin 0) (pb_amount p)" and "flt (Fin 1) od"
    and "flt (Fin 0) (round2 (fmul (pb_amount p) od))"
    and "map_of (bet db) new_id = None"
  shows "place_bet (Some db) new_id now p =
     (Inr (new_id, round2 (fmul (pb_amount p) od)),
      Some (db\<lparr>bet := bet db @ [(new_id,
                 \<lparr>user_id = bo, event_id = eo, outcome = pb_outcome p,
                  amount = Some (pb_amount p), odds_at_bet = Some od,
                  bet_status = ''pending'',
                  potential_payout = round2 (fmul (pb_amount p) od),
                  settled_payout = None, bet_updated_at = None\<rparr>)],
               bettor := (bettor db)(bo \<mapsto>
                 (inc_balance (fneg (pb_amount p)) bd)\<lparr>bettor_updated_at := now\<rparr>)\<rparr>))"
  using assms by (simp add: Bet_def create_document_def update_one_def)

lemma place_bet_error_state:
  "fst (place_bet dbo new_id now p) = Inl e \<Longrightarrow> snd (place_bet dbo new_id now p) = dbo"
  by (cases dbo) (auto split: sum.splits option.splits if_splits)

text \<open>
  A placement that passes the six checks and whose rounded potential payout is not above
  0 is refused by the \<open>Bet\<close> model, and nothing is written.
\<close>

lemma zero_payout_rejected:
  assumes "oid (pb_bettor_id p) = Inr bo" and "bettor db bo = Some bd"
    and "oid (pb_event_id p) = Inr eo" and "event db eo = Some ev"
    and "ev_status ev = Some ''open''"
    and "find (\<lambda>oc. name oc = Some (pb_outcome p))
           (case outcomes ev of None \<Rightarrow> [] | Some os \<Rightarrow> os) = Some chosen"
    and "\<not> fle (pb_amount p) (Fin 0)"
    and "\<not> flt (case balance bd of None \<Rightarrow> Fin 1000 | Some b \<Rightarrow> b) (pb_amount p)"
    and "odds chosen = Some od"
    and "\<not> flt (Fin 0) (round2 (fmul (pb_amount p) od))"
  shows "place_bet (Some db) new_id now p = (Inl ValidationError, Some db)"
  using assms by (simp add: Bet_def)

text \<open>Conversely, a placement that returns went through every check.\<close>

lemma place_bet_returns:
  assumes "place_bet (Some db) new_id now p = (Inr (bid, pp), dbo)"
  shows "\<exists>bo bd eo ev chosen od.
     oid (pb_bettor_id p) = Inr bo \<and> bettor db bo = Some bd \<and>
     oid (pb_event_id p) = Inr eo \<and> event db eo = Some ev \<and>
     ev_status ev = Some ''open'' \<and>
     find (\<lambda>oc. name oc = Some (pb_outcome p))
       (case outcomes ev of None \<Rightarrow> [] | Some os \<Rightarrow> os) = Some chosen \<and>
     \<not> fle (pb_amount p) (Fin 0) \<and>
     \<not> flt (case balance bd of None \<Rightarrow> Fin 1000 | Some b \<Rightarrow> b) (pb_amount p) \<and>
     odds chosen = Some od \<and>
     flt (Fin 0) (pb_amount p) \<and> flt (Fin 1) od \<and>
     flt (Fin 0) (round2 (fmul (pb_amount p) od)) \<and>
     map_of (bet db) new_id = None"
proof -
  from assms obtain bo where bo: "oid (pb_bettor_id p) = Inr bo"
    by (cases "oid (pb_bettor_id p)") auto
  from assms bo obtain bd where bd: "bettor db bo = Some bd"
    by (cases "bettor db bo") auto
  from assms bo bd obtain eo where eo: "oid (pb_event_id p) = Inr eo"
    by (cases "oid (pb_event_id p)") auto
  from assms bo bd eo obtain ev where ev: "event db eo = Some ev"
    by (cases "event db eo") auto
  from assms bo bd eo ev have st: "ev_status ev = Some ''open''"
    by (auto split: if_splits)
  from assms bo bd eo ev st obtain chosen where
    ch: "find (\<lambda>oc. name oc = Some (pb_outcome p))
           (case outcomes ev of None \<Rightarrow> [] | Some os \<Rightarrow> os) = Some chosen"
    by (cases "find (\<lambda>oc. name oc = Some (pb_outcome p))
           (case outcomes ev of None \<Rightarrow> [] | Some os \<Rightarrow> os)") auto
  from assms bo bd eo ev st ch have am: "\<not> fle (pb_amount p) (Fin 0)"
    and ba: "\<not> flt (case balance bd of None \<Rightarrow> Fin 1000 | Some b \<Rightarrow> b) (pb_amount p)"
    by (auto split: if_splits)
  from assms bo bd eo ev st ch am ba obtain od where od: "odds chosen = Some od"
    by (cases "odds chosen") auto
  from assms bo bd eo ev st ch am ba od have
    "flt (Fin 0) (pb_amount p) \<and> flt (Fin 1) od \<and>
     flt (Fin 0) (round2 (fmul (pb_amount p) od)) \<and> map_of (bet db) new_id = None"
    by (auto simp: Bet_def create_document_def split: if_splits)
  with bo bd eo ev st ch am ba od show ?thesis by blast
qed

section \<open>Settling an event: the loop and the two passes\<close>

lemma update_one_bet_keys: "map fst (update_one_bet k f bs) = map fst bs"
  by (induction bs) auto

text \<open>With unique ids, updating the first match is updating the match.\<close>

lemma update_one_bet_distinct:
  "distinct (map fst bs) \<Longrightarrow>
   update_one_bet k f bs = map (\<lambda>(i, b). if i = k then (i, f b) else (i, b)) bs"
proof (induction bs)
  case Nil
  then show ?case by simp
next
  case (Cons x bs)
  obtain i b where x: "x = (i, b)" by (cases x)
  have "\<forall>(j, c) \<in> set bs. j \<noteq> i" using Cons.prems x by force
  then have "map (\<lambda>(j, c). if j = i then (j, f c) else (j, c)) bs = bs"
    by (induction bs) auto
  with Cons x show ?case by auto
qed

lemma fold_update_one_bet:
  "distinct (map fst cur) \<Longrightarrow> distinct (map fst ws) \<Longrightarrow>
   foldl (\<lambda>bs (i, b). update_one_bet i (g b) bs) cur ws =
   map (\<lambda>(j, c). case map_of ws j of None \<Rightarrow> (j, c) | Some b \<Rightarrow> (j, g b c)) cur"
proof (induction ws arbitrary: cur)
  case Nil
  then show ?case by simp
next
  case (Cons w ws)
  obtain i b where w: "w = (i, b)" by (cases w)
  have d: "distinct (map fst (update_one_bet i (g b) cur))"
    using Cons.prems(1) by (simp add: update_one_bet_keys)
  have n: "map_of ws i = None"
    using Cons.prems(2) w by (simp add: map_of_eq_None_iff)
  show ?case
    using Cons.IH[OF d] Cons.prems w n
    by (auto simp: update_one_bet_distinct split: option.splits)
qed

lemma map_of_filter_distinct:
  "distinct (map fst bs) \<Longrightarrow> (j, c) \<in> set bs \<Longrightarrow>
   map_of (filter (\<lambda>(i, b). W b) bs) j = (if W c then Some c else None)"
proof (induction bs)
  case Nil
  then show ?case by simp
next
  case (Cons x bs)
  obtain i b where x: "x = (i, b)" by (cases x)
  show ?case
  proof (cases "j = i")
    case True
    then have "c = b"
      using Cons.prems x eq_key_imp_eq_value[of "x # bs" j c b] by auto
    moreover have "map_of (filter (\<lambda>(i, b). W b) bs) i = None"
      using Cons.prems(1) x by (auto simp: map_of_eq_None_iff)
    ultimately show ?thesis using True x by simp
  next
    case False
    then show ?thesis using Cons x by auto
  qed
qed

text \<open>One turn of the loop, when the owner's id parses.\<close>

lemma pay_out_step:
  "oid (user_id b) = Inr u \<Longrightarrow>
   pay_out db now ((i, b) # ws) =
   pay_out (db\<lparr>bet := update_one_bet i (set_won (payout_of b) now) (bet db),
               bettor := update_one u (inc_balance (payout_of b)) (bettor db)\<rparr>) now ws"
  by (simp add: Let_def)

lemma pay_out_returns_head:
  "fst (pay_out db now ((i, b) # ws)) = Inr () \<Longrightarrow> \<exists>u. oid (user_id b) = Inr u"
  by (cases "oid (user_id b)") (auto simp: Let_def)

lemma pay_out_event: "event (snd (pay_out db now ws)) = event db"
proof (induction ws arbitrary: db)
  case Nil
  then show ?case by simp
next
  case (Cons w ws)
  obtain i b where w: "w = (i, b)" by (cases w)
  show ?case
    using Cons.IH w by (cases "oid (user_id b)") (auto simp: Let_def)
qed

text \<open>The loop reads the events nowhere: another event collection changes nothing else.\<close>

lemma pay_out_other_events:
  "pay_out (db\<lparr>event := E\<rparr>) now ws =
   (fst (pay_out db now ws), (snd (pay_out db now ws))\<lparr>event := E\<rparr>)"
proof (induction ws arbitrary: db)
  case Nil
  then show ?case by simp
next
  case (Cons w ws)
  obtain i b where w: "w = (i, b)" by (cases w)
  show ?case
  proof (cases "oid (user_id b)")
    case (Inl e)
    then show ?thesis using w by (simp add: Let_def)
  next
    case (Inr u)
    define db1 where "db1 = db\<lparr>bet := update_one_bet i (set_won (payout_of b) now) (bet db),
               bettor := update_one u (inc_balance (payout_of b)) (bettor db)\<rparr>"
    have r: "(db\<lparr>event := E\<rparr>)\<lparr>bet := update_one_bet i (set_won (payout_of b) now)
                    (bet (db\<lparr>event := E\<rparr>)),
               bettor := update_one u (inc_balance (payout_of b)) (bettor (db\<lparr>event := E\<rparr>))\<rparr> =
             db1\<lparr>event := E\<rparr>"
      unfolding db1_def by (cases db) simp
    have "pay_out (db\<lparr>event := E\<rparr>) now (w # ws) = pay_out (db1\<lparr>event := E\<rparr>) now ws"
      unfolding w using pay_out_step[OF Inr, of "db\<lparr>event := E\<rparr>" now i ws] r by simp
    moreover have "pay_out db now (w # ws) = pay_out db1 now ws"
      unfolding w db1_def by (rule pay_out_step[OF Inr])
    ultimately show ?thesis
      using Cons.IH[of db1] by simp
  qed
qed

lemma pay_out_bet:
  "fst (pay_out db now ws) = Inr () \<Longrightarrow>
   bet (snd (pay_out db now ws)) =
   foldl (\<lambda>bs (i, b). update_one_bet i (set_won (payout_of b) now) bs) (bet db) ws"
proof (induction ws arbitrary: db)
  case Nil
  then show ?case by simp
next
  case (Cons w ws)
  obtain i b where w: "w = (i, b)" by (cases w)
  obtain u where u: "oid (user_id b) = Inr u"
    using Cons.prems w pay_out_returns_head by blast
  define db1 where "db1 = db\<lparr>bet := update_one_bet i (set_won (payout_of b) now) (bet db),
               bettor := update_one u (inc_balance (payout_of b)) (bettor db)\<rparr>"
  have step: "pay_out db now (w # ws) = pay_out db1 now ws"
    unfolding w db1_def by (rule pay_out_step[OF u])
  have "fst (pay_out db1 now ws) = Inr ()" using Cons.prems step by simp
  from Cons.IH[OF this] show ?case
    unfolding step by (simp add: w db1_def)
qed

text \<open>
  What the loop does to one bettor: the credits of that bettor's bets of the list, one
  after the other; nothing for a bettor who owns none of them.
\<close>

lemma pay_out_bettor:
  "fst (pay_out db now ws) = Inr () \<Longrightarrow>
   bettor (snd (pay_out db now ws)) u =
   map_option
     (\<lambda>d. foldl (\<lambda>d (i, b). inc_balance (payout_of b) d) d
             (filter (\<lambda>(i, b). oid (user_id b) = Inr u) ws))
     (bettor db u)"
proof (induction ws arbitrary: db)
  case Nil
  then show ?case by (simp add: option.map_ident)
next
  case (Cons w ws)
  obtain i b where w: "w = (i, b)" by (cases w)
  obtain v where v: "oid (user_id b) = Inr v"
    using Cons.prems w pay_out_returns_head by blast
  define db1 where "db1 = db\<lparr>bet := update_one_bet i (set_won (payout_of b) now) (bet db),
     bettor := update_one v (inc_balance (payout_of b)) (bettor db)\<rparr>"
  have step: "pay_out db now (w # ws) = pay_out db1 now ws"
    unfolding w db1_def by (rule pay_out_step[OF v])
  have "fst (pay_out db1 now ws) = Inr ()" using Cons.prems step by simp
  from Cons.IH[OF this] have
    "bettor (snd (pay_out db1 now ws)) u =
     map_option (\<lambda>d. foldl (\<lambda>d (i, b). inc_balance (payout_of b) d) d
                 (filter (\<lambda>(i, b). oid (user_id b) = Inr u) ws)) (bettor db1 u)" .
  moreover have "bettor db1 u =
     (if u = v then map_option (inc_balance (payout_of b)) (bettor db u) else bettor db u)"
    by (auto simp: db1_def update_one_def split: option.splits)
  ultimately show ?case
    using step w v by (auto simp: option.map_comp comp_def)
qed

text \<open>The loop returns exactly when every owner's id parses.\<close>

lemma pay_out_ok:
  "(fst (pay_out db now ws) = Inr ()) = list_all (\<lambda>(i, b). \<exists>u. oid (user_id b) = Inr u) ws"
proof (induction ws arbitrary: db)
  case Nil
  then show ?case by simp
next
  case (Cons w ws)
  obtain i b where w: "w = (i, b)" by (cases w)
  show ?case
    using Cons.IH w by (cases "oid (user_id b)") (auto simp: Let_def)
qed

text \<open>A settlement that passes its two checks is the event update, the loop, the losers.\<close>

lemma settle_event_accepted:
  assumes "oid (se_event_id q) = Inr eo" and "event db eo = Some ev"
    and "list_ex (\<lambda>oc. name oc = Some (se_result q))
           (case outcomes ev of None \<Rightarrow> [] | Some os \<Rightarrow> os)"
  shows "settle_event (Some db) now q =
     (case pay_out (db\<lparr>event := (event db)(eo \<mapsto> ev\<lparr>ev_status := Some ''settled'',
                      result := Some (se_result q), ev_updated_at := now\<rparr>)\<rparr>) now
             (filter (\<lambda>(i, b). event_id b = eo \<and> outcome b = se_result q) (bet db)) of
        (Inl e, db2) \<Rightarrow> (Inl e, Some db2)
      | (Inr _, db2) \<Rightarrow>
          (Inr ''settled'',
           Some (db2\<lparr>bet := update_many (\<lambda>b. event_id b = eo \<and> outcome b \<noteq> se_result q)
                              (set_lost now) (bet db2)\<rparr>)))"
  using assms by (simp add: Let_def update_one_def)

lemma settle_event_success:
  assumes "settle_event (Some db) now q = (Inr s, dbo)"
  shows "\<exists>eo ev db2. oid (se_event_id q) = Inr eo \<and> event db eo = Some ev \<and>
     list_ex (\<lambda>oc. name oc = Some (se_result q))
       (case outcomes ev of None \<Rightarrow> [] | Some os \<Rightarrow> os) \<and>
     pay_out (db\<lparr>event := (event db)(eo \<mapsto> ev\<lparr>ev_status := Some ''settled'',
                  result := Some (se_result q), ev_updated_at := now\<rparr>)\<rparr>) now
         (filter (\<lambda>(i, b). event_id b = eo \<and> outcome b = se_result q) (bet db)) = (Inr (), db2) \<and>
     s = ''settled'' \<and>
     dbo = Some (db2\<lparr>bet := update_many (\<lambda>b. event_id b = eo \<and> outcome b \<noteq> se_result q)
                            (set_lost now) (bet db2)\<rparr>)"
  using assms
  by (auto simp: Let_def update_one_def split: sum.splits option.splits if_splits prod.splits)

text \<open>
  The bets after a settlement, with unique ids: each bet of the event is won with its
  payout or lost with 0.0, and every other bet is as it was.
\<close>

lemma settle_event_bets:
  assumes ok: "settle_event (Some db) now q = (Inr s, Some db')"
    and eo: "oid (se_event_id q) = Inr eo"
    and dist: "distinct (map fst (bet db))"
  shows "bet db' =
     map (\<lambda>(i, b). (i, if event_id b = eo
                        then (if outcome b = se_result q then set_won (payout_of b) now b
                              else set_lost now b)
                        else b)) (bet db)"
proof -
  let ?r = "se_result q"
  let ?W = "\<lambda>b. event_id b = eo \<and> outcome b = ?r"
  let ?ws = "filter (\<lambda>(i, b). ?W b) (bet db)"
  from settle_event_success[OF ok] eo obtain ev db2 where
    po: "pay_out (db\<lparr>event := (event db)(eo \<mapsto> ev\<lparr>ev_status := Some ''settled'',
                  result := Some ?r, ev_updated_at := now\<rparr>)\<rparr>) now ?ws = (Inr (), db2)"
    and db': "db' = db2\<lparr>bet := update_many (\<lambda>b. event_id b = eo \<and> outcome b \<noteq> ?r)
                            (set_lost now) (bet db2)\<rparr>"
    by auto
  have dws: "distinct (map fst ?ws)"
    using dist by (simp add: distinct_map_filter)
  have "bet db2 = foldl (\<lambda>bs (i, b). update_one_bet i (set_won (payout_of b) now) bs) (bet db) ?ws"
    using pay_out_bet[of "db\<lparr>event := (event db)(eo \<mapsto> ev\<lparr>ev_status := Some ''settled'',
                  result := Some ?r, ev_updated_at := now\<rparr>)\<rparr>" now ?ws] po by simp
  also have "\<dots> = map (\<lambda>(j, c). case map_of ?ws j of None \<Rightarrow> (j, c)
                       | Some b \<Rightarrow> (j, set_won (payout_of b) now c)) (bet db)"
    by (rule fold_update_one_bet[OF dist dws])
  also have "\<dots> = map (\<lambda>(j, c). if ?W c then (j, set_won (payout_of c) now c) else (j, c)) (bet db)"
    by (rule map_cong) (auto simp: map_of_filter_distinct[OF dist])
  finally have "bet db2 =
      map (\<lambda>(j, c). if ?W c then (j, set_won (payout_of c) now c) else (j, c)) (bet db)" .
  then show ?thesis
    by (auto simp: db' update_many_def set_won_def)
qed

text \<open>The bettors after a settlement: the credits of the winning bets, nothing else.\<close>

lemma settle_event_bettors:
  assumes ok: "settle_event (Some db) now q = (Inr s, Some db')"
    and eo: "oid (se_event_id q) = Inr eo"
  shows "bettor db' u =
     map_option
       (\<lambda>d. foldl (\<lambda>d (i, b). inc_balance (payout_of b) d) d
          (filter (\<lambda>(i, b). event_id b = eo \<and> outcome b = se_result q \<and> oid (user_id b) = Inr u)
                  (bet db)))
       (bettor db u)"
proof -
  let ?r = "se_result q"
  let ?ws = "filter (\<lambda>(i, b). event_id b = eo \<and> outcome b = ?r) (bet db)"
  from settle_event_success[OF ok] eo obtain ev db2 where
    po: "pay_out (db\<lparr>event := (event db)(eo \<mapsto> ev\<lparr>ev_status := Some ''settled'',
                  result := Some ?r, ev_updated_at := now\<rparr>)\<rparr>) now ?ws = (Inr (), db2)"
    and db': "db' = db2\<lparr>bet := update_many (\<lambda>b. event_id b = eo \<and> outcome b \<noteq> ?r)
                            (set_lost now) (bet db2)\<rparr>"
    by auto
  show ?thesis
    using pay_out_bettor[of "db\<lparr>event := (event db)(eo \<mapsto> ev\<lparr>ev_status := Some ''settled'',
                  result := Some ?r, ev_updated_at := now\<rparr>)\<rparr>" now ?ws u] po
    by (simp add: db' case_prod_unfold conj_assoc)
qed

text \<open>
  The credits of a bettor's winning bets, one \<open>$inc\<close> after the other, as float sums: from
  the balance the document has, or from the first payout when it has none.
\<close>

lemma credits_with_balance:
  "balance d = Some x \<Longrightarrow>
   foldl (\<lambda>d (i, b). inc_balance (payout_of b) d) d ws =
   d\<lparr>balance := Some (foldl fadd x (map (\<lambda>(i, b). payout_of b) ws))\<rparr>"
proof (induction ws arbitrary: d x)
  case Nil
  then show ?case by simp
next
  case (Cons w ws)
  obtain i b where w: "w = (i, b)" by (cases w)
  have "balance (inc_balance (payout_of b) d) = Some (fadd x (payout_of b))"
    using Cons.prems by (simp add: inc_balance_def)
  from Cons.IH[OF this] show ?case
    using Cons.prems by (simp add: w inc_balance_def)
qed

lemma credits_without_balance:
  "balance d = None \<Longrightarrow>
   foldl (\<lambda>d (i, b). inc_balance (payout_of b) d) d ((i, b) # ws) =
   d\<lparr>balance := Some (foldl fadd (payout_of b) (map (\<lambda>(i, b). payout_of b) ws))\<rparr>"
  using credits_with_balance[of "inc_balance (payout_of b) d" "payout_of b" ws]
  by (simp add: inc_balance_def)

text \<open>
  Settling rewrites the status, the settled payout and the update time of a bet, and
  nothing that selects a winning bet or that its payout is computed from.
\<close>

lemma payout_of_set_won: "payout_of (set_won p now b) = payout_of b"
  by (simp add: payout_of_def set_won_def)

lemma payout_of_set_lost: "payout_of (set_lost now b) = payout_of b"
  by (simp add: payout_of_def set_lost_def)

lemma filter_rewritten_bets:
  assumes "\<And>b. W (h b) = W b"
  shows "filter (\<lambda>(i, b). W b) (map (\<lambda>(i, b). (i, h b)) xs) =
         map (\<lambda>(i, b). (i, h b)) (filter (\<lambda>(i, b). W b) xs)"
  using assms by (induction xs) auto

lemma credits_of_rewritten_bets:
  assumes "\<And>b. payout_of (h b) = payout_of b"
  shows "foldl (\<lambda>d (i, b). inc_balance (payout_of b) d) d (map (\<lambda>(i, b). (i, h b)) xs) =
         foldl (\<lambda>d (i, b). inc_balance (payout_of b) d) d xs"
  using assms by (induction xs arbitrary: d) auto

lemma owners_of_rewritten_bets:
  assumes "\<And>b. user_id (h b) = user_id b"
  shows "list_all (\<lambda>(i, b). \<exists>u. oid (user_id b) = Inr u) (map (\<lambda>(i, b). (i, h b)) xs) =
         list_all (\<lambda>(i, b). \<exists>u. oid (user_id b) = Inr u) xs"
  using assms by (induction xs) auto

lemma settle_event_event:
  assumes ok: "settle_event (Some db) now q = (Inr s, Some db')"
    and eo: "oid (se_event_id q) = Inr eo" and ev: "event db eo = Some ev"
  shows "event db' = (event db)(eo \<mapsto> ev\<lparr>ev_status := Some ''settled'',
                  result := Some (se_result q), ev_updated_at := now\<rparr>)"
proof -
  from settle_event_success[OF ok] eo ev obtain db2 where
    po: "pay_out (db\<lparr>event := (event db)(eo \<mapsto> ev\<lparr>ev_status := Some ''settled'',
                  result := Some (se_result q), ev_updated_at := now\<rparr>)\<rparr>) now
         (filter (\<lambda>(i, b). event_id b = eo \<and> outcome b = se_result q) (bet db)) = (Inr (), db2)"
    and db': "db' = db2\<lparr>bet := update_many (\<lambda>b. event_id b = eo \<and> outcome b \<noteq> se_result q)
                            (set_lost now) (bet db2)\<rparr>"
    by auto
  have "event db2 = (event db)(eo \<mapsto> ev\<lparr>ev_status := Some ''settled'',
                  result := Some (se_result q), ev_updated_at := now\<rparr>)"
    using pay_out_event[of "db\<lparr>event := (event db)(eo \<mapsto> ev\<lparr>ev_status := Some ''settled'',
                  result := Some (se_result q), ev_updated_at := now\<rparr>)\<rparr>" now
         "filter (\<lambda>(i, b). event_id b = eo \<and> outcome b = se_result q) (bet db)"] po
    by simp
  then show ?thesis by (simp add: db')
qed

text \<open>A settlement whose two checks pass returns when the owner of every winning bet parses.\<close>

lemma settle_event_returns:
  assumes eo: "oid (se_event_id q) = Inr eo" and ev: "event db eo = Some ev"
    and valid: "list_ex (\<lambda>oc. name oc = Some (se_result q))
           (case outcomes ev of None \<Rightarrow> [] | Some os \<Rightarrow> os)"
    and owners: "list_all (\<lambda>(i, b). \<exists>u. oid (user_id b) = Inr u)
           (filter (\<lambda>(i, b). event_id b = eo \<and> outcome b = se_result q) (bet db))"
  shows "\<exists>db'. settle_event (Some db) now q = (Inr ''settled'', Some db')"
proof -
  let ?db1 = "db\<lparr>event := (event db)(eo \<mapsto> ev\<lparr>ev_status := Some ''settled'',
                      result := Some (se_result q), ev_updated_at := now\<rparr>)\<rparr>"
  let ?ws = "filter (\<lambda>(i, b). event_id b = eo \<and> outcome b = se_result q) (bet db)"
  have "fst (pay_out ?db1 now ?ws) = Inr ()"
    using owners by (simp only: pay_out_ok)
  then obtain db2 where "pay_out ?db1 now ?ws = (Inr (), db2)"
    by (cases "pay_out ?db1 now ?ws") auto
  then show ?thesis
    unfolding settle_event_accepted[OF eo ev valid] by simp
qed

section \<open>The small store, step by step\<close>

lemmas store_defs =
  db_seed_def db_ann_def db_bets_def db_settled_def bettors_def seed_event_def
  settled_event_def ann_red_def bob_draw_def red_wins_def bet_ann_def bet_bob_def
  ann_tiny_def ann_2000_def late_bet_def cyd_1000_def nobody_wins_def repriced_def
  repriced_event_def db_repriced_settled_def db_ann_settled_def db_big_def
  db_big_settled_def

lemma place_ann:
  "place_bet (Some db_seed) bet1 1 ann_red = (Inr (bet1, Fin 190), Some db_ann)"
  by (simp add: store_defs id_evals float_evals Bet_def create_document_def update_one_def
      inc_balance_def fle_def fun_eq_iff del: fadd.simps(1) round2.simps(1))

lemma place_bob:
  "place_bet (Some db_ann) bet2 2 bob_draw = (Inr (bet2, Fin 160), Some db_bets)"
  by (simp add: store_defs id_evals float_evals Bet_def create_document_def update_one_def
      inc_balance_def fle_def fun_eq_iff del: fadd.simps(1) round2.simps(1))

lemma settle_red:
  "settle_event (Some db_bets) 3 red_wins = (Inr ''settled'', Some (db_settled (Fin 1090) 3))"
  by (simp add: store_defs id_evals float_evals payout_of_def set_won_def set_lost_def
      update_one_def update_many_def inc_balance_def fun_eq_iff Let_def
      del: fadd.simps(1) round2.simps(1))

lemma settle_again:
  "settle_event (Some (db_settled (Fin 1090) 3)) 4 red_wins =
   (Inr ''settled'', Some (db_settled (Fin 1280) 4))"
  by (simp add: store_defs id_evals float_evals payout_of_def set_won_def set_lost_def
      update_one_def update_many_def inc_balance_def fun_eq_iff Let_def
      del: fadd.simps(1) round2.simps(1))

text \<open>
  The store with the bet of Ann alone, settled for Team Red: with the odds as they were,
  and after the odds of Team Red have been changed to 5.0.
\<close>

lemma settle_ann:
  "settle_event (Some db_ann) 3 red_wins = (Inr ''settled'', Some (db_ann_settled 3))"
  by (simp add: store_defs id_evals float_evals payout_of_def set_won_def set_lost_def
      update_one_def update_many_def inc_balance_def fun_eq_iff Let_def
      del: fadd.simps(1) round2.simps(1))

lemma settle_repriced:
  "settle_event (Some (db_ann\<lparr>event := repriced\<rparr>)) 3 red_wins =
   (Inr ''settled'', Some (db_repriced_settled 3))"
  by (simp add: store_defs id_evals float_evals payout_of_def set_won_def set_lost_def
      update_one_def update_many_def inc_balance_def fun_eq_iff Let_def
      del: fadd.simps(1) round2.simps(1))

section \<open>Claims about placing a bet\<close>



text \<open>
  Claim C4. When a check of \<open>place_bet\<close> or of \<open>settle_event\<close> fails, the error is raised
  before any write: whenever \<open>place_bet\<close> raises, the store is as it was; a placement
  whose amount exceeds the balance raises and leaves the store as it was; a settlement
  whose event id does not parse, whose event does not exist or whose result is not the
  name of an outcome of the event raises and leaves the store as it was.
\<close>

theorem failed_precondition_writes_nothing:
  "(fst (place_bet dbo new_id now p) = Inl e \<longrightarrow> snd (place_bet dbo new_id now p) = dbo)
 \<and> (oid (pb_bettor_id p) = Inr bo \<and> bettor db bo = Some bd \<and>
      flt (case balance bd of None \<Rightarrow> Fin 1000 | Some b \<Rightarrow> b) (pb_amount p) \<longrightarrow>
      (\<exists>e'. place_bet (Some db) new_id now p = (Inl e', Some db)))
 \<and> (oid (se_event_id q) = Inl e \<longrightarrow> settle_event (Some db) now q = (Inl e, Some db))
 \<and> (oid (se_event_id q) = Inr eo \<and> event db eo = None \<longrightarrow>
      settle_event (Some db) now q = (Inl (HTTPException 404 ''Event not found''), Some db))
 \<and> (oid (se_event_id q) = Inr eo \<and> event db eo = Some ev \<and>
      \<not> list_ex (\<lambda>oc. name oc = Some (se_result q))
           (case outcomes ev of None \<Rightarrow> [] | Some os \<Rightarrow> os) \<longrightarrow>
      settle_event (Some db) now q =
      (Inl (HTTPException 400 ''Result is not a valid outcome''), Some db))"
proof -
  have a: "fst (place_bet dbo new_id now p) = Inl e \<longrightarrow> snd (place_bet dbo new_id now p) = dbo"
    using place_bet_error_state by blast
  have b: "oid (pb_bettor_id p) = Inr bo \<and> bettor db bo = Some bd \<and>
      flt (case balance bd of None \<Rightarrow> Fin 1000 | Some b \<Rightarrow> b) (pb_amount p) \<longrightarrow>
      (\<exists>e'. place_bet (Some db) new_id now p = (Inl e', Some db))"
    by (auto split: sum.splits option.splits)
  have c: "(oid (se_event_id q) = Inl e \<longrightarrow> settle_event (Some db) now q = (Inl e, Some db))
     \<and> (oid (se_event_id q) = Inr eo \<and> event db eo = None \<longrightarrow>
      settle_event (Some db) now q = (Inl (HTTPException 404 ''Event not found''), Some db))
     \<and> (oid (se_event_id q) = Inr eo \<and> event db eo = Some ev \<and>
      \<not> list_ex (\<lambda>oc. name oc = Some (se_result q))
           (case outcomes ev of None \<Rightarrow> [] | Some os \<Rightarrow> os) \<longrightarrow>
      settle_event (Some db) now q =
      (Inl (HTTPException 400 ''Result is not a valid outcome''), Some db))"
    by simp
  from a b c show ?thesis by blast
qed

text \<open>
  Ann, with balance 900, asks for 2000: refused, the store unchanged. A settlement for
  an outcome the event does not have: refused, the store unchanged.
\<close>

theorem failed_precondition_writes_nothing_witness:
  "oid (pb_bettor_id ann_2000) = Inr ann
   \<and> bettor db_bets ann = Some \<lparr>display_name = ''Ann'', balance = Some (Fin 900), bettor_updated_at = 1\<rparr>
   \<and> flt (Fin 900) (pb_amount ann_2000)
   \<and> place_bet (Some db_bets) bet1 5 ann_2000 =
      (Inl (HTTPException 400 ''Insufficient balance''), Some db_bets)
   \<and> oid (se_event_id nobody_wins) = Inr ev1
   \<and> event db_bets ev1 = Some (seed_event 0)
   \<and> \<not> list_ex (\<lambda>oc. name oc = Some (se_result nobody_wins))
           (case outcomes (seed_event 0) of None \<Rightarrow> [] | Some os \<Rightarrow> os)
   \<and> settle_event (Some db_bets) 5 nobody_wins =
      (Inl (HTTPException 400 ''Result is not a valid outcome''), Some db_bets)"
proof -
  have h: "oid (pb_bettor_id ann_2000) = Inr ann"
    "bettor db_bets ann = Some \<lparr>display_name = ''Ann'', balance = Some (Fin 900), bettor_updated_at = 1\<rparr>"
    "flt (Fin 900) (pb_amount ann_2000)"
    "oid (se_event_id nobody_wins) = Inr ev1"
    "event db_bets ev1 = Some (seed_event 0)"
    "\<not> list_ex (\<lambda>oc. name oc = Some (se_result nobody_wins))
           (case outcomes (seed_event 0) of None \<Rightarrow> [] | Some os \<Rightarrow> os)"
    by (simp_all add: store_defs id_evals float_evals)
  have n: "fst (place_bet (Some db_bets) bet1 5 ann_2000) =
      Inl (HTTPException 400 ''Insufficient balance'')"
    by (simp add: store_defs id_evals float_evals fle_def)
  from failed_precondition_writes_nothing
    [where dbo = "Some db_bets" and new_id = bet1 and now = 5 and p = ann_2000
       and e = "HTTPException 400 ''Insufficient balance''" and q = nobody_wins
       and db = db_bets and eo = ev1 and ev = "seed_event 0"]
    h n
  have "snd (place_bet (Some db_bets) bet1 5 ann_2000) = Some db_bets"
    and "settle_event (Some db_bets) 5 nobody_wins =
      (Inl (HTTPException 400 ''Result is not a valid outcome''), Some db_bets)"
    by blast+
  with h n show ?thesis by (simp add: prod_eq_iff)
qed

text \<open>
  Claim C9. For a bettor whose document has no balance field, the balance check of
  \<open>place_bet\<close> is made against 1000.0: once the first five checks have passed, the
  placement is refused for insufficient balance exactly when the amount exceeds 1000.0,
  so every amount up to 1000.0 passes that check.
\<close>

theorem default_balance_when_field_missing:
  assumes "oid (pb_bettor_id p) = Inr bo" and "bettor db bo = Some bd"
    and "balance bd = None"
    and "oid (pb_event_id p) = Inr eo" and "event db eo = Some ev"
    and "ev_status ev = Some ''open''"
    and "find (\<lambda>oc. name oc = Some (pb_outcome p))
           (case outcomes ev of None \<Rightarrow> [] | Some os \<Rightarrow> os) = Some chosen"
    and "\<not> fle (pb_amount p) (Fin 0)"
  shows "((fst (place_bet (Some db) new_id now p) =
           Inl (HTTPException 400 ''Insufficient balance'')) = flt (Fin 1000) (pb_amount p))
       \<and> (fle (pb_amount p) (Fin 1000) \<longrightarrow>
           fst (place_bet (Some db) new_id now p) \<noteq>
           Inl (HTTPException 400 ''Insufficient balance''))"
proof -
  have i: "(fst (place_bet (Some db) new_id now p) = Inl (HTTPException 400 ''Insufficient balance''))
       = flt (Fin 1000) (pb_amount p)"
    using assms by (auto simp: Bet_def create_document_def split: option.splits sum.splits)
  then show ?thesis
    using fle_not_flt by blast
qed

text \<open>Cyd, whose document has no balance, stakes 1000.\<close>

theorem default_balance_when_field_missing_witness:
  "oid (pb_bettor_id cyd_1000) = Inr cyd
   \<and> bettor db_seed cyd = Some \<lparr>display_name = ''Cyd'', balance = None, bettor_updated_at = 0\<rparr>
   \<and> balance \<lparr>display_name = ''Cyd'', balance = None, bettor_updated_at = 0\<rparr> = None
   \<and> oid (pb_event_id cyd_1000) = Inr ev1
   \<and> event db_seed ev1 = Some (seed_event 0)
   \<and> ev_status (seed_event 0) = Some ''open''
   \<and> find (\<lambda>oc. name oc = Some (pb_outcome cyd_1000))
        (case outcomes (seed_event 0) of None \<Rightarrow> [] | Some os \<Rightarrow> os) =
      Some \<lparr>name = Some ''Team Red'', odds = Some (lit (19 / 10))\<rparr>
   \<and> \<not> fle (pb_amount cyd_1000) (Fin 0)
   \<and> fle (pb_amount cyd_1000) (Fin 1000)
   \<and> fst (place_bet (Some db_seed) bet1 5 cyd_1000) \<noteq>
      Inl (HTTPException 400 ''Insufficient balance'')"
proof -
  have h: "oid (pb_bettor_id cyd_1000) = Inr cyd"
    "bettor db_seed cyd = Some \<lparr>display_name = ''Cyd'', balance = None, bettor_updated_at = 0\<rparr>"
    "balance \<lparr>display_name = ''Cyd'', balance = None, bettor_updated_at = 0\<rparr> = None"
    "oid (pb_event_id cyd_1000) = Inr ev1"
    "event db_seed ev1 = Some (seed_event 0)"
    "ev_status (seed_event 0) = Some ''open''"
    "find (\<lambda>oc. name oc = Some (pb_outcome cyd_1000))
        (case outcomes (seed_event 0) of None \<Rightarrow> [] | Some os \<Rightarrow> os) =
      Some \<lparr>name = Some ''Team Red'', odds = Some (lit (19 / 10))\<rparr>"
    "\<not> fle (pb_amount cyd_1000) (Fin 0)"
    by (simp_all add: store_defs id_evals lit_1000 fle_def)
  have l: "fle (pb_amount cyd_1000) (Fin 1000)"
    by (simp add: store_defs lit_1000 fle_def)
  from default_balance_when_field_missing[OF h, of bet1 5] l
  have "fst (place_bet (Some db_seed) bet1 5 cyd_1000) \<noteq>
      Inl (HTTPException 400 ''Insufficient balance'')"
    by blast
  with h l show ?thesis by simp
qed

text \<open>
  Claim C1. A placement that passes the six checks and whose bet document the \<open>Bet\<close>
  schema accepts (amount above 0, odds above 1.0, potential payout above 0), made by a
  bettor whose document has a balance and on an outcome whose document has odds, computes
  \<open>potential_payout = round(amount * odds, 2)\<close> from the odds of the matched outcome,
  stores one new bet with status \<open>pending\<close>, those odds as \<open>odds_at_bet\<close> and that
  potential payout, takes the amount off the balance of the bettor (the float difference
  \<open>balance - amount\<close>), and returns the id of the new bet with the same potential payout.
  Nothing else in the store changes.
\<close>

theorem place_bet_valid:
  assumes "oid (pb_bettor_id p) = Inr bo" and "bettor db bo = Some bd"
    and "oid (pb_event_id p) = Inr eo" and "event db eo = Some ev"
    and "ev_status ev = Some ''open''"
    and "find (\<lambda>oc. name oc = Some (pb_outcome p))
           (case outcomes ev of None \<Rightarrow> [] | Some os \<Rightarrow> os) = Some chosen"
    and "\<not> fle (pb_amount p) (Fin 0)"
    and "balance bd = Some bal" and "\<not> flt bal (pb_amount p)"
    and "odds chosen = Some od"
    and "flt (Fin 0) (pb_amount p)" and "flt (Fin 1) od"
    and "flt (Fin 0) (round2 (fmul (pb_amount p) od))"
    and "map_of (bet db) new_id = None"
  shows "place_bet (Some db) new_id now p =
     (Inr (new_id, round2 (fmul (pb_amount p) od)),
      Some (db\<lparr>bet := bet db @ [(new_id,
                 \<lparr>user_id = bo, event_id = eo, outcome = pb_outcome p,
                  amount = Some (pb_amount p), odds_at_bet = Some od,
                  bet_status = ''pending'',
                  potential_payout = round2 (fmul (pb_amount p) od),
                  settled_payout = None, bet_updated_at = None\<rparr>)],
               bettor := (bettor db)(bo \<mapsto>
                 bd\<lparr>balance := Some (fadd bal (fneg (pb_amount p))),
                    bettor_updated_at := now\<rparr>)\<rparr>))"
  using place_bet_success[of p bo db bd eo ev chosen od new_id now] assms
  by (simp add: inc_balance_def)

theorem place_bet_valid_witness:
  "oid (pb_bettor_id ann_red) = Inr ann
   \<and> bettor db_seed ann = Some \<lparr>display_name = ''Ann'', balance = Some (Fin 1000), bettor_updated_at = 0\<rparr>
   \<and> oid (pb_event_id ann_red) = Inr ev1
   \<and> event db_seed ev1 = Some (seed_event 0)
   \<and> ev_status (seed_event 0) = Some ''open''
   \<and> find (\<lambda>oc. name oc = Some (pb_outcome ann_red))
        (case outcomes (seed_event 0) of None \<Rightarrow> [] | Some os \<Rightarrow> os) =
      Some \<lparr>name = Some ''Team Red'', odds = Some (Fin (4278419646001971 / 2251799813685248))\<rparr>
   \<and> \<not> fle (pb_amount ann_red) (Fin 0)
   \<and> \<not> flt (Fin 1000) (pb_amount ann_red)
   \<and> flt (Fin 0) (pb_amount ann_red)
   \<and> flt (Fin 1) (Fin (4278419646001971 / 2251799813685248))
   \<and> flt (Fin 0) (round2 (fmul (pb_amount ann_red) (Fin (4278419646001971 / 2251799813685248))))
   \<and> map_of (bet db_seed) bet1 = None
   \<and> place_bet (Some db_seed) bet1 1 ann_red = (Inr (bet1, Fin 190), Some db_ann)"
proof -
  have h: "oid (pb_bettor_id ann_red) = Inr ann"
    "bettor db_seed ann = Some \<lparr>display_name = ''Ann'', balance = Some (Fin 1000), bettor_updated_at = 0\<rparr>"
    "oid (pb_event_id ann_red) = Inr ev1"
    "event db_seed ev1 = Some (seed_event 0)"
    "ev_status (seed_event 0) = Some ''open''"
    "find (\<lambda>oc. name oc = Some (pb_outcome ann_red))
        (case outcomes (seed_event 0) of None \<Rightarrow> [] | Some os \<Rightarrow> os) =
      Some \<lparr>name = Some ''Team Red'', odds = Some (Fin (4278419646001971 / 2251799813685248))\<rparr>"
    "\<not> fle (pb_amount ann_red) (Fin 0)"
    "balance \<lparr>display_name = ''Ann'', balance = Some (Fin 1000), bettor_updated_at = 0\<rparr> = Some (Fin 1000)"
    "\<not> flt (Fin 1000) (pb_amount ann_red)"
    "odds \<lparr>name = Some ''Team Red'', odds = Some (Fin (4278419646001971 / 2251799813685248))\<rparr> = Some (Fin (4278419646001971 / 2251799813685248))"
    "flt (Fin 0) (pb_amount ann_red)"
    "flt (Fin 1) (Fin (4278419646001971 / 2251799813685248))"
    "flt (Fin 0) (round2 (fmul (pb_amount ann_red) (Fin (4278419646001971 / 2251799813685248))))"
    "map_of (bet db_seed) bet1 = None"
    by (simp_all add: store_defs id_evals float_evals fle_def del: round2.simps(1))
  have "place_bet (Some db_seed) bet1 1 ann_red = (Inr (bet1, Fin 190), Some db_ann)"
    using place_bet_valid[OF h, of 1]
    by (simp add: store_defs id_evals float_evals fun_eq_iff del: fadd.simps(1) round2.simps(1))
  with h show ?thesis by simp
qed

text \<open>
  The six checks alone do not give this. Ann, with balance \<open>1000.0\<close>, stakes \<open>0.001\<close>
  on Team Red at odds \<open>1.9\<close>: bettor and event exist, the event is open, the outcome
  matches, the amount is above 0 and within the balance, but
  \<open>round(0.001 * 1.9, 2) = 0.0\<close>, which the constraint \<open>potential_payout > 0\<close> of
  \<open>Bet\<close> refuses; the constructor raises, no bet is stored and the balance is not touched.
\<close>

theorem place_bet_tiny_counterexample:
  "oid (pb_bettor_id ann_tiny) = Inr ann
   \<and> bettor db_seed ann = Some \<lparr>display_name = ''Ann'', balance = Some (Fin 1000), bettor_updated_at = 0\<rparr>
   \<and> oid (pb_event_id ann_tiny) = Inr ev1
   \<and> event db_seed ev1 = Some (seed_event 0)
   \<and> ev_status (seed_event 0) = Some ''open''
   \<and> find (\<lambda>oc. name oc = Some (pb_outcome ann_tiny))
        (case outcomes (seed_event 0) of None \<Rightarrow> [] | Some os \<Rightarrow> os) =
      Some \<lparr>name = Some ''Team Red'', odds = Some (Fin (4278419646001971 / 2251799813685248))\<rparr>
   \<and> flt (Fin 0) (pb_amount ann_tiny)
   \<and> fle (pb_amount ann_tiny) (Fin 1000)
   \<and> place_bet (Some db_seed) bet1 1 ann_tiny = (Inl ValidationError, Some db_seed)"
  by (simp add: store_defs id_evals float_evals fle_def Bet_def
      del: fadd.simps(1) round2.simps(1))

section \<open>Claims about settling an event\<close>

text \<open>
  Claim C10. Settling an event that has no bets succeeds: the event gets status
  \<open>settled\<close> and the winning outcome name as its result, no bettor and no bet changes,
  and the answer is \<open>settled\<close>.
\<close>

theorem settle_event_without_bets:
  assumes "oid (se_event_id q) = Inr eo" and "event db eo = Some ev"
    and "list_ex (\<lambda>oc. name oc = Some (se_result q))
           (case outcomes ev of None \<Rightarrow> [] | Some os \<Rightarrow> os)"
    and "\<forall>(i, b) \<in> set (bet db). event_id b \<noteq> eo"
  shows "settle_event (Some db) now q =
     (Inr ''settled'',
      Some (db\<lparr>event := (event db)(eo \<mapsto> ev\<lparr>ev_status := Some ''settled'',
                   result := Some (se_result q), ev_updated_at := now\<rparr>)\<rparr>))"
proof -
  have f: "filter (\<lambda>(i, b). event_id b = eo \<and> outcome b = se_result q) (bet db) = []"
    using assms(4) by (auto simp: filter_empty_conv)
  have u: "update_many (\<lambda>b. event_id b = eo \<and> outcome b \<noteq> se_result q) (set_lost now) (bet db) = bet db"
    unfolding update_many_def using assms(4) by (intro map_idI) auto
  show ?thesis
    using settle_event_accepted[OF assms(1-3), of now] by (simp add: f u)
qed

text \<open>The seeded event, settled before anyone has placed a bet.\<close>

theorem settle_event_without_bets_witness:
  "oid (se_event_id red_wins) = Inr ev1
   \<and> event db_seed ev1 = Some (seed_event 0)
   \<and> list_ex (\<lambda>oc. name oc = Some (se_result red_wins))
        (case outcomes (seed_event 0) of None \<Rightarrow> [] | Some os \<Rightarrow> os)
   \<and> bet db_seed = []
   \<and> settle_event (Some db_seed) 3 red_wins =
      (Inr ''settled'', Some (db_seed\<lparr>event := [ev1 \<mapsto> settled_event 3]\<rparr>))"
proof -
  have h: "oid (se_event_id red_wins) = Inr ev1"
    "event db_seed ev1 = Some (seed_event 0)"
    "list_ex (\<lambda>oc. name oc = Some (se_result red_wins))
        (case outcomes (seed_event 0) of None \<Rightarrow> [] | Some os \<Rightarrow> os)"
    by (simp_all add: store_defs id_evals)
  have e: "bet db_seed = []" by (simp add: store_defs)
  then have n: "\<forall>(i, b) \<in> set (bet db_seed). event_id b \<noteq> ev1" by simp
  have "settle_event (Some db_seed) 3 red_wins =
      (Inr ''settled'', Some (db_seed\<lparr>event := [ev1 \<mapsto> settled_event 3]\<rparr>))"
    using settle_event_without_bets[OF h n, of 3] by (simp add: store_defs)
  with h e show ?thesis by simp
qed

text \<open>
  Claim C3. After a settlement that returns, the answer is \<open>settled\<close>, the event has
  status \<open>settled\<close> and the chosen name as its result, that name is the name of one of
  the event's outcomes, and every bet of the event has status \<open>won\<close> or \<open>lost\<close>, none
  \<open>pending\<close>. The ids of the bets are unique, as \<open>_id\<close> is in the store.
\<close>

theorem settle_event_invariants:
  assumes ok: "settle_event (Some db) now q = (Inr s, Some db')"
    and eo: "oid (se_event_id q) = Inr eo"
    and dist: "distinct (map fst (bet db))"
  shows "s = ''settled''
     \<and> (\<exists>ev. event db eo = Some ev
          \<and> event db' eo = Some (ev\<lparr>ev_status := Some ''settled'',
                result := Some (se_result q), ev_updated_at := now\<rparr>)
          \<and> (\<exists>oc \<in> set (case outcomes ev of None \<Rightarrow> [] | Some os \<Rightarrow> os).
                name oc = Some (se_result q)))
     \<and> (\<forall>(i, b) \<in> set (bet db'). event_id b = eo \<longrightarrow>
           (bet_status b = ''won'' \<or> bet_status b = ''lost'') \<and> bet_status b \<noteq> ''pending'')"
proof -
  from settle_event_success[OF ok] eo obtain ev db2 where
    ev: "event db eo = Some ev"
    and valid: "list_ex (\<lambda>oc. name oc = Some (se_result q))
       (case outcomes ev of None \<Rightarrow> [] | Some os \<Rightarrow> os)"
    and po: "pay_out (db\<lparr>event := (event db)(eo \<mapsto> ev\<lparr>ev_status := Some ''settled'',
                  result := Some (se_result q), ev_updated_at := now\<rparr>)\<rparr>) now
         (filter (\<lambda>(i, b). event_id b = eo \<and> outcome b = se_result q) (bet db)) = (Inr (), db2)"
    and s: "s = ''settled''"
    and db': "db' = db2\<lparr>bet := update_many (\<lambda>b. event_id b = eo \<and> outcome b \<noteq> se_result q)
                            (set_lost now) (bet db2)\<rparr>"
    by auto
  have "event db2 = (event db)(eo \<mapsto> ev\<lparr>ev_status := Some ''settled'',
                  result := Some (se_result q), ev_updated_at := now\<rparr>)"
    using pay_out_event[of "db\<lparr>event := (event db)(eo \<mapsto> ev\<lparr>ev_status := Some ''settled'',
                  result := Some (se_result q), ev_updated_at := now\<rparr>)\<rparr>" now
         "filter (\<lambda>(i, b). event_id b = eo \<and> outcome b = se_result q) (bet db)"] po
    by simp
  then have e': "event db' eo = Some (ev\<lparr>ev_status := Some ''settled'',
                result := Some (se_result q), ev_updated_at := now\<rparr>)"
    by (simp add: db')
  have v: "\<exists>oc \<in> set (case outcomes ev of None \<Rightarrow> [] | Some os \<Rightarrow> os).
                name oc = Some (se_result q)"
    using valid by (simp add: list_ex_iff)
  have b: "\<forall>(i, b) \<in> set (bet db'). event_id b = eo \<longrightarrow>
           (bet_status b = ''won'' \<or> bet_status b = ''lost'') \<and> bet_status b \<noteq> ''pending''"
    unfolding settle_event_bets[OF ok eo dist]
    by (auto simp: set_won_def set_lost_def split: if_splits)
  from s ev e' v b show ?thesis by blast
qed

text \<open>The store with the bets of Ann and Bob, settled for Team Red.\<close>

theorem settle_event_invariants_witness:
  "settle_event (Some db_bets) 3 red_wins = (Inr ''settled'', Some (db_settled (Fin 1090) 3))
   \<and> oid (se_event_id red_wins) = Inr ev1
   \<and> distinct (map fst (bet db_bets))
   \<and> event (db_settled (Fin 1090) 3) ev1 =
      Some ((seed_event 0)\<lparr>ev_status := Some ''settled'', result := Some ''Team Red'',
                           ev_updated_at := 3\<rparr>)
   \<and> map (\<lambda>(i, b). bet_status b) (bet (db_settled (Fin 1090) 3)) = [''won'', ''lost'']"
proof -
  have h: "oid (se_event_id red_wins) = Inr ev1" "distinct (map fst (bet db_bets))"
    by (simp_all add: store_defs id_evals)
  from settle_event_invariants[OF settle_red h]
  have "\<exists>ev. event db_bets ev1 = Some ev
          \<and> event (db_settled (Fin 1090) 3) ev1 = Some (ev\<lparr>ev_status := Some ''settled'',
                result := Some (se_result red_wins), ev_updated_at := 3\<rparr>)"
    by blast
  then have e: "event (db_settled (Fin 1090) 3) ev1 =
      Some ((seed_event 0)\<lparr>ev_status := Some ''settled'', result := Some ''Team Red'',
                           ev_updated_at := 3\<rparr>)"
    by (simp add: db_bets_def red_wins_def)
  have "map (\<lambda>(i, b). bet_status b) (bet (db_settled (Fin 1090) 3)) = [''won'', ''lost'']"
    by (simp add: store_defs)
  with settle_red h e show ?thesis by simp
qed

text \<open>
  Claim C2. When \<open>settle_event\<close> returns, every bet on the event whose outcome is the
  winning name has status \<open>won\<close> and \<open>settled_payout = round(amount * odds_at_bet, 2)\<close>,
  every other bet on the event has status \<open>lost\<close> and \<open>settled_payout = 0.0\<close>, and the
  bets of other events are as they were. Each winning bet adds its payout to the balance
  of its owner as the store's \<open>$inc\<close> does, by float addition: a bettor with balance
  \<open>x\<close> ends with \<open>((x + p1) + ...) + pn\<close> for the payouts of their winning bets in the
  order of the bets, each sum rounded to the nearest float, so \<open>x + p\<close> rounded for one
  winning bet; a bettor whose document has no balance gets the first payout as balance
  and the others added to it; a bettor with no winning bet, so one who only lost, has the
  document they had. Bet ids are unique, as \<open>_id\<close> is in a collection.
\<close>

theorem settle_event_pays_winners:
  assumes ok: "settle_event (Some db) now q = (Inr s, Some db')"
    and eo: "oid (se_event_id q) = Inr eo"
    and dist: "distinct (map fst (bet db))"
  shows "bet db' =
       map (\<lambda>(i, b). (i, if event_id b = eo
                          then (if outcome b = se_result q
                                then b\<lparr>bet_status := ''won'', settled_payout := Some (payout_of b),
                                       bet_updated_at := Some now\<rparr>
                                else b\<lparr>bet_status := ''lost'', settled_payout := Some (Fin 0),
                                       bet_updated_at := Some now\<rparr>)
                          else b)) (bet db)
     \<and> (\<forall>b a od. amount b = Some a \<and> odds_at_bet b = Some od \<longrightarrow>
           payout_of b = round2 (fmul a od))
     \<and> (\<forall>u d x. bettor db u = Some d \<and> balance d = Some x \<longrightarrow>
           bettor db' u =
           Some (d\<lparr>balance := Some (foldl fadd x
                   (map (\<lambda>(i, b). payout_of b) (wins_of eo (se_result q) u (bet db))))\<rparr>))
     \<and> (\<forall>u d x i b. bettor db u = Some d \<and> balance d = Some x \<and>
           wins_of eo (se_result q) u (bet db) = [(i, b)] \<longrightarrow>
           bettor db' u = Some (d\<lparr>balance := Some (fadd x (payout_of b))\<rparr>))
     \<and> (\<forall>u d i b ws. bettor db u = Some d \<and> balance d = None \<and>
           wins_of eo (se_result q) u (bet db) = (i, b) # ws \<longrightarrow>
           bettor db' u =
           Some (d\<lparr>balance := Some (foldl fadd (payout_of b)
                   (map (\<lambda>(i, b). payout_of b) ws))\<rparr>))
     \<and> (\<forall>u. wins_of eo (se_result q) u (bet db) = [] \<longrightarrow> bettor db' u = bettor db u)
     \<and> (\<forall>u. bettor db u = None \<longrightarrow> bettor db' u = None)"
proof -
  have a: "bet db' =
       map (\<lambda>(i, b). (i, if event_id b = eo
                          then (if outcome b = se_result q
                                then b\<lparr>bet_status := ''won'', settled_payout := Some (payout_of b),
                                       bet_updated_at := Some now\<rparr>
                                else b\<lparr>bet_status := ''lost'', settled_payout := Some (Fin 0),
                                       bet_updated_at := Some now\<rparr>)
                          else b)) (bet db)"
    unfolding settle_event_bets[OF ok eo dist] by (auto simp: set_won_def set_lost_def)
  have b: "\<forall>b a od. amount b = Some a \<and> odds_at_bet b = Some od \<longrightarrow>
           payout_of b = round2 (fmul a od)"
    by (simp add: payout_of_def)
  have c: "bettor db' u =
           map_option (\<lambda>d. foldl (\<lambda>d (i, b). inc_balance (payout_of b) d) d
                             (wins_of eo (se_result q) u (bet db)))
             (bettor db u)" for u
    using settle_event_bettors[OF ok eo] by (simp add: wins_of_def)
  have d: "\<forall>u d x. bettor db u = Some d \<and> balance d = Some x \<longrightarrow>
           bettor db' u =
           Some (d\<lparr>balance := Some (foldl fadd x
                   (map (\<lambda>(i, b). payout_of b) (wins_of eo (se_result q) u (bet db))))\<rparr>)"
    by (simp add: c credits_with_balance)
  have e: "\<forall>u d x i b. bettor db u = Some d \<and> balance d = Some x \<and>
           wins_of eo (se_result q) u (bet db) = [(i, b)] \<longrightarrow>
           bettor db' u = Some (d\<lparr>balance := Some (fadd x (payout_of b))\<rparr>)"
    by (simp add: c inc_balance_def)
  have f: "\<forall>u d i b ws. bettor db u = Some d \<and> balance d = None \<and>
           wins_of eo (se_result q) u (bet db) = (i, b) # ws \<longrightarrow>
           bettor db' u =
           Some (d\<lparr>balance := Some (foldl fadd (payout_of b)
                   (map (\<lambda>(i, b). payout_of b) ws))\<rparr>)"
    by (simp add: c credits_without_balance del: foldl_Cons)
  have g: "\<forall>u. wins_of eo (se_result q) u (bet db) = [] \<longrightarrow> bettor db' u = bettor db u"
    by (simp add: c option.map_ident)
  have h: "\<forall>u. bettor db u = None \<longrightarrow> bettor db' u = None"
    by (simp add: c)
  from a b d e f g h show ?thesis by blast
qed

text \<open>
  The store with the bets of Ann and Bob, settled for Team Red: Ann goes from 900 to
  \<open>900.0 + 190.0\<close>, which is 1090 exactly, and Bob, who lost, keeps his document.
\<close>

theorem settle_event_pays_winners_witness:
  "settle_event (Some db_bets) 3 red_wins = (Inr ''settled'', Some (db_settled (Fin 1090) 3))
   \<and> oid (se_event_id red_wins) = Inr ev1
   \<and> distinct (map fst (bet db_bets))
   \<and> wins_of ev1 (se_result red_wins) ann (bet db_bets) = [(bet1, bet_ann)]
   \<and> wins_of ev1 (se_result red_wins) bob (bet db_bets) = []
   \<and> bettor db_bets ann = Some \<lparr>display_name = ''Ann'', balance = Some (Fin 900), bettor_updated_at = 1\<rparr>
   \<and> payout_of bet_ann = Fin 190
   \<and> bet (db_settled (Fin 1090) 3) =
       [(bet1, bet_ann\<lparr>bet_status := ''won'', settled_payout := Some (Fin 190),
                       bet_updated_at := Some 3\<rparr>),
        (bet2, bet_bob\<lparr>bet_status := ''lost'', settled_payout := Some (Fin 0),
                       bet_updated_at := Some 3\<rparr>)]
   \<and> bettor (db_settled (Fin 1090) 3) ann =
       Some \<lparr>display_name = ''Ann'', balance = Some (fadd (Fin 900) (Fin 190)), bettor_updated_at = 1\<rparr>
   \<and> fadd (Fin 900) (Fin 190) = Fin 1090
   \<and> bettor (db_settled (Fin 1090) 3) bob = bettor db_bets bob"
proof -
  have h: "oid (se_event_id red_wins) = Inr ev1" "distinct (map fst (bet db_bets))"
    by (simp_all add: store_defs id_evals)
  have w: "wins_of ev1 (se_result red_wins) ann (bet db_bets) = [(bet1, bet_ann)]"
    "wins_of ev1 (se_result red_wins) bob (bet db_bets) = []"
    "bettor db_bets ann = Some \<lparr>display_name = ''Ann'', balance = Some (Fin 900), bettor_updated_at = 1\<rparr>"
    "balance \<lparr>display_name = ''Ann'', balance = Some (Fin 900), bettor_updated_at = 1\<rparr> = Some (Fin 900)"
    by (simp_all add: wins_of_def store_defs id_evals)
  have p: "payout_of bet_ann = Fin 190"
    by (simp add: payout_of_def bet_ann_def float_evals del: round2.simps(1))
  note t = settle_event_pays_winners[OF settle_red h]
  from t w have "bettor (db_settled (Fin 1090) 3) ann =
       Some (\<lparr>display_name = ''Ann'', balance = Some (Fin 900), bettor_updated_at = 1\<rparr>
               \<lparr>balance := Some (fadd (Fin 900) (payout_of bet_ann))\<rparr>)"
    by blast
  then have a: "bettor (db_settled (Fin 1090) 3) ann =
       Some \<lparr>display_name = ''Ann'', balance = Some (fadd (Fin 900) (Fin 190)), bettor_updated_at = 1\<rparr>"
    by (simp add: p del: fadd.simps(1))
  from t w have b: "bettor (db_settled (Fin 1090) 3) bob = bettor db_bets bob"
    by blast
  have c: "bet (db_settled (Fin 1090) 3) =
       [(bet1, bet_ann\<lparr>bet_status := ''won'', settled_payout := Some (Fin 190),
                       bet_updated_at := Some 3\<rparr>),
        (bet2, bet_bob\<lparr>bet_status := ''lost'', settled_payout := Some (Fin 0),
                       bet_updated_at := Some 3\<rparr>)]"
    by (simp add: db_settled_def)
  from settle_red h w p a b c add_900_190 show ?thesis by simp
qed

text \<open>
  The balance does not always increase by exactly the payout. With the balance of Ann at
  \<open>2.0 ** 62\<close>, her bet on Team Red is settled \<open>won\<close> with payout 190, and her balance
  after the settlement is the balance before: \<open>2.0 ** 62 + 190.0\<close> rounds to
  \<open>2.0 ** 62\<close>.
\<close>

theorem settle_event_big_balance_counterexample:
  "oid (se_event_id red_wins) = Inr ev1
   \<and> distinct (map fst (bet db_big))
   \<and> bet db_big = [(bet1, bet_ann)]
   \<and> event_id bet_ann = ev1 \<and> outcome bet_ann = se_result red_wins \<and> user_id bet_ann = ann
   \<and> map_option balance (bettor db_big ann) = Some (Some (Fin 4611686018427387904))
   \<and> settle_event (Some db_big) 3 red_wins = (Inr ''settled'', Some (db_big_settled 3))
   \<and> map_option (\<lambda>b. (bet_status b, settled_payout b)) (map_of (bet (db_big_settled 3)) bet1) =
       Some (''won'', Some (Fin 190))
   \<and> map_option balance (bettor (db_big_settled 3) ann) = Some (Some (Fin 4611686018427387904))"
proof -
  have "settle_event (Some db_big) 3 red_wins = (Inr ''settled'', Some (db_big_settled 3))"
    by (simp add: store_defs id_evals float_evals payout_of_def set_won_def set_lost_def
        update_one_def update_many_def inc_balance_def fun_eq_iff Let_def
        del: fadd.simps(1) round2.simps(1))
  moreover have "oid (se_event_id red_wins) = Inr ev1"
    "distinct (map fst (bet db_big))"
    "bet db_big = [(bet1, bet_ann)]"
    "event_id bet_ann = ev1" "outcome bet_ann = se_result red_wins" "user_id bet_ann = ann"
    "map_option balance (bettor db_big ann) = Some (Some (Fin 4611686018427387904))"
    "map_option (\<lambda>b. (bet_status b, settled_payout b)) (map_of (bet (db_big_settled 3)) bet1) =
       Some (''won'', Some (Fin 190))"
    "map_option balance (bettor (db_big_settled 3) ann) = Some (Some (Fin 4611686018427387904))"
    by (simp_all add: db_big_def db_big_settled_def bettors_def bet_ann_def red_wins_def id_evals)
  ultimately show ?thesis by simp
qed

text \<open>
  Claim C6. \<open>settle_event\<close> does not read the status of the event. For an existing event
  and the name of one of its outcomes, the settlement of a store is the settlement of the
  same store with any other status and result on the event; it returns \<open>settled\<close>, and
  so does a second settlement of the store it leaves, where the event has status
  \<open>settled\<close>: that one credits every bettor again with the payouts of their winning bets,
  as the first did. The bets are as the endpoints leave them: their ids are unique and the
  owner of each winning bet is an id that \<open>ObjectId\<close> accepts.
\<close>

theorem settle_event_ignores_status:
  assumes eo: "oid (se_event_id q) = Inr eo" and ev: "event db eo = Some ev"
    and valid: "list_ex (\<lambda>oc. name oc = Some (se_result q))
           (case outcomes ev of None \<Rightarrow> [] | Some os \<Rightarrow> os)"
    and owners: "list_all (\<lambda>(i, b). \<exists>u. oid (user_id b) = Inr u)
           (filter (\<lambda>(i, b). event_id b = eo \<and> outcome b = se_result q) (bet db))"
    and dist: "distinct (map fst (bet db))"
  shows "(\<forall>st r0. settle_event
             (Some (db\<lparr>event := (event db)(eo \<mapsto> ev\<lparr>ev_status := st, result := r0\<rparr>)\<rparr>)) now q =
           settle_event (Some db) now q)
     \<and> (\<exists>db1 db2 ev1.
          settle_event (Some db) now q = (Inr ''settled'', Some db1)
          \<and> event db1 eo = Some ev1 \<and> ev_status ev1 = Some ''settled''
          \<and> settle_event (Some db1) later q = (Inr ''settled'', Some db2)
          \<and> (\<forall>u. bettor db1 u =
                map_option (\<lambda>d. foldl (\<lambda>d (i, b). inc_balance (payout_of b) d) d
                                  (wins_of eo (se_result q) u (bet db)))
                  (bettor db u))
          \<and> (\<forall>u. bettor db2 u =
                map_option (\<lambda>d. foldl (\<lambda>d (i, b). inc_balance (payout_of b) d) d
                                  (wins_of eo (se_result q) u (bet db)))
                  (bettor db1 u)))"
proof -
  let ?r = "se_result q"
  let ?h = "\<lambda>b. if event_id b = eo
                 then (if outcome b = ?r then set_won (payout_of b) now b else set_lost now b)
                 else b"
  let ?credit = "\<lambda>u d. foldl (\<lambda>d (i, b). inc_balance (payout_of b) d) d
                                  (wins_of eo ?r u (bet db))"
  have a: "settle_event
             (Some (db\<lparr>event := (event db)(eo \<mapsto> ev\<lparr>ev_status := st, result := r0\<rparr>)\<rparr>)) now q =
           settle_event (Some db) now q" for st r0
  proof -
    let ?db0 = "db\<lparr>event := (event db)(eo \<mapsto> ev\<lparr>ev_status := st, result := r0\<rparr>)\<rparr>"
    have e0: "event ?db0 eo = Some (ev\<lparr>ev_status := st, result := r0\<rparr>)" by simp
    have v0: "list_ex (\<lambda>oc. name oc = Some ?r)
           (case outcomes (ev\<lparr>ev_status := st, result := r0\<rparr>) of None \<Rightarrow> [] | Some os \<Rightarrow> os)"
      using valid by simp
    show ?thesis
      unfolding settle_event_accepted[OF eo e0 v0] settle_event_accepted[OF eo ev valid]
      by simp
  qed
  from settle_event_returns[OF eo ev valid owners] obtain db1 where
    ok1: "settle_event (Some db) now q = (Inr ''settled'', Some db1)" by blast
  have e1: "event db1 eo = Some (ev\<lparr>ev_status := Some ''settled'',
                  result := Some ?r, ev_updated_at := now\<rparr>)"
    by (simp add: settle_event_event[OF ok1 eo ev])
  have v1: "list_ex (\<lambda>oc. name oc = Some ?r)
           (case outcomes (ev\<lparr>ev_status := Some ''settled'',
                  result := Some ?r, ev_updated_at := now\<rparr>) of None \<Rightarrow> [] | Some os \<Rightarrow> os)"
    using valid by simp
  have b1: "bet db1 = map (\<lambda>(i, b). (i, ?h b)) (bet db)"
    by (rule settle_event_bets[OF ok1 eo dist])
  have hW: "(event_id (?h b) = eo \<and> outcome (?h b) = ?r) = (event_id b = eo \<and> outcome b = ?r)" for b
    by (simp add: set_won_def set_lost_def)
  have hWu: "(event_id (?h b) = eo \<and> outcome (?h b) = ?r \<and> oid (user_id (?h b)) = Inr u) =
             (event_id b = eo \<and> outcome b = ?r \<and> oid (user_id b) = Inr u)" for b u
    by (simp add: set_won_def set_lost_def)
  have hu: "user_id (?h b) = user_id b" for b
    by (simp add: set_won_def set_lost_def)
  have hp: "payout_of (?h b) = payout_of b" for b
    by (simp add: payout_of_set_won payout_of_set_lost)
  have o1: "list_all (\<lambda>(i, b). \<exists>u. oid (user_id b) = Inr u)
           (filter (\<lambda>(i, b). event_id b = eo \<and> outcome b = ?r) (bet db1))"
    unfolding b1
      filter_rewritten_bets[of "\<lambda>b. event_id b = eo \<and> outcome b = ?r" ?h "bet db", OF hW]
      owners_of_rewritten_bets[of ?h, OF hu]
    by (rule owners)
  from settle_event_returns[OF eo e1 v1 o1] obtain db2 where
    ok2: "settle_event (Some db1) later q = (Inr ''settled'', Some db2)" by blast
  have c1: "bettor db1 u = map_option (?credit u) (bettor db u)" for u
    using settle_event_bettors[OF ok1 eo] by (simp add: wins_of_def)
  have w: "wins_of eo ?r u (bet db1) = map (\<lambda>(i, b). (i, ?h b)) (wins_of eo ?r u (bet db))" for u
    unfolding b1 wins_of_def
    by (rule filter_rewritten_bets[of "\<lambda>b. event_id b = eo \<and> outcome b = ?r \<and> oid (user_id b) = Inr u" ?h, OF hWu])
  have c2: "bettor db2 u = map_option (?credit u) (bettor db1 u)" for u
  proof -
    have "bettor db2 u =
        map_option (\<lambda>d. foldl (\<lambda>d (i, b). inc_balance (payout_of b) d) d
                          (wins_of eo ?r u (bet db1))) (bettor db1 u)"
      using settle_event_bettors[OF ok2 eo] by (simp add: wins_of_def)
    then show ?thesis
      unfolding w credits_of_rewritten_bets[of ?h, OF hp] .
  qed
  from a ok1 e1 ok2 c1 c2 show ?thesis by auto
qed

text \<open>
  The store with the bets of Ann and Bob: settled twice for Team Red, the balance of Ann
  goes from 900 to 1090 and then to 1280.
\<close>

theorem settle_event_ignores_status_witness:
  "oid (se_event_id red_wins) = Inr ev1
   \<and> event db_bets ev1 = Some (seed_event 0)
   \<and> list_ex (\<lambda>oc. name oc = Some (se_result red_wins))
        (case outcomes (seed_event 0) of None \<Rightarrow> [] | Some os \<Rightarrow> os)
   \<and> list_all (\<lambda>(i, b). \<exists>u. oid (user_id b) = Inr u)
        (filter (\<lambda>(i, b). event_id b = ev1 \<and> outcome b = se_result red_wins) (bet db_bets))
   \<and> distinct (map fst (bet db_bets))
   \<and> settle_event
        (Some (db_bets\<lparr>event := (event db_bets)(ev1 \<mapsto>
           (seed_event 0)\<lparr>ev_status := Some ''settled'', result := Some ''Draw''\<rparr>)\<rparr>))
        3 red_wins =
      (Inr ''settled'', Some (db_settled (Fin 1090) 3))
   \<and> ev_status (settled_event 3) = Some ''settled''
   \<and> event (db_settled (Fin 1090) 3) ev1 = Some (settled_event 3)
   \<and> settle_event (Some (db_settled (Fin 1090) 3)) 4 red_wins =
      (Inr ''settled'', Some (db_settled (Fin 1280) 4))
   \<and> map_option balance (bettor db_bets ann) = Some (Some (Fin 900))
   \<and> map_option balance (bettor (db_settled (Fin 1090) 3) ann) = Some (Some (Fin 1090))
   \<and> map_option balance (bettor (db_settled (Fin 1280) 4) ann) = Some (Some (Fin 1280))"
proof -
  have h: "oid (se_event_id red_wins) = Inr ev1"
    "event db_bets ev1 = Some (seed_event 0)"
    "list_ex (\<lambda>oc. name oc = Some (se_result red_wins))
        (case outcomes (seed_event 0) of None \<Rightarrow> [] | Some os \<Rightarrow> os)"
    "list_all (\<lambda>(i, b). \<exists>u. oid (user_id b) = Inr u)
        (filter (\<lambda>(i, b). event_id b = ev1 \<and> outcome b = se_result red_wins) (bet db_bets))"
    "distinct (map fst (bet db_bets))"
    by (simp_all add: store_defs id_evals)
  from settle_event_ignores_status[OF h, of 3 4]
  have "settle_event
        (Some (db_bets\<lparr>event := (event db_bets)(ev1 \<mapsto>
           (seed_event 0)\<lparr>ev_status := Some ''settled'', result := Some ''Draw''\<rparr>)\<rparr>))
        3 red_wins = settle_event (Some db_bets) 3 red_wins"
    by blast
  then have a: "settle_event
        (Some (db_bets\<lparr>event := (event db_bets)(ev1 \<mapsto>
           (seed_event 0)\<lparr>ev_status := Some ''settled'', result := Some ''Draw''\<rparr>)\<rparr>))
        3 red_wins = (Inr ''settled'', Some (db_settled (Fin 1090) 3))"
    by (simp only: settle_red)
  have b: "ev_status (settled_event 3) = Some ''settled''"
    "event (db_settled (Fin 1090) 3) ev1 = Some (settled_event 3)"
    "map_option balance (bettor db_bets ann) = Some (Some (Fin 900))"
    "map_option balance (bettor (db_settled (Fin 1090) 3) ann) = Some (Some (Fin 1090))"
    "map_option balance (bettor (db_settled (Fin 1280) 4) ann) = Some (Some (Fin 1280))"
    by (simp_all add: db_settled_def db_bets_def bettors_def settled_event_def id_evals)
  from h a b settle_again show ?thesis by simp
qed

section \<open>Claims about a bet from placement to settlement\<close>

text \<open>
  Claim C7. The odds of the matched outcome are copied into the bet when it is placed.
  Whatever the event collection is replaced with afterwards, the bet keeps the odds it was
  placed at, and a settlement of its event for its outcome pays
  \<open>round(amount * odds_at_bet, 2)\<close> with those odds, not with the odds the event has then.
\<close>

theorem odds_at_bet_snapshot:
  assumes placed: "place_bet (Some db) new_id now p = (Inr (bid, pp), Some db1)"
    and dist: "distinct (map fst (bet db))"
    and eo: "oid (pb_event_id p) = Inr eo" and ev: "event db eo = Some ev"
    and ch: "find (\<lambda>oc. name oc = Some (pb_outcome p))
           (case outcomes ev of None \<Rightarrow> [] | Some os \<Rightarrow> os) = Some chosen"
    and od: "odds chosen = Some od"
    and settled: "settle_event (Some (db1\<lparr>event := E\<rparr>)) later q = (Inr s, Some db2)"
    and same: "oid (se_event_id q) = Inr eo"
    and win: "se_result q = pb_outcome p"
  shows "bid = new_id
     \<and> (\<exists>b. map_of (bet db1) bid = Some b
          \<and> amount b = Some (pb_amount p) \<and> odds_at_bet b = Some od
          \<and> map_of (bet (db1\<lparr>event := E\<rparr>)) bid = Some b
          \<and> map_of (bet db2) bid =
              Some (b\<lparr>bet_status := ''won'',
                      settled_payout := Some (round2 (fmul (pb_amount p) od)),
                      bet_updated_at := Some later\<rparr>))"
proof -
  from place_bet_returns[OF placed] eo ev ch od obtain bo bd where
    h: "oid (pb_bettor_id p) = Inr bo" "bettor db bo = Some bd"
      "oid (pb_event_id p) = Inr eo" "event db eo = Some ev"
      "ev_status ev = Some ''open''"
      "find (\<lambda>oc. name oc = Some (pb_outcome p))
         (case outcomes ev of None \<Rightarrow> [] | Some os \<Rightarrow> os) = Some chosen"
      "\<not> fle (pb_amount p) (Fin 0)"
      "\<not> flt (case balance bd of None \<Rightarrow> Fin 1000 | Some b \<Rightarrow> b) (pb_amount p)"
      "odds chosen = Some od"
      "flt (Fin 0) (pb_amount p)" "flt (Fin 1) od"
      "flt (Fin 0) (round2 (fmul (pb_amount p) od))"
      "map_of (bet db) new_id = None"
    by auto
  define nb where "nb = \<lparr>user_id = bo, event_id = eo, outcome = pb_outcome p,
                  amount = Some (pb_amount p), odds_at_bet = Some od,
                  bet_status = ''pending'',
                  potential_payout = round2 (fmul (pb_amount p) od),
                  settled_payout = None, bet_updated_at = None\<rparr>"
  from place_bet_success[OF h, of now] placed
  have bid: "bid = new_id" and b1: "bet db1 = bet db @ [(new_id, nb)]"
    by (auto simp: nb_def)
  have fresh: "new_id \<notin> fst ` set (bet db)"
    using h(13) by (simp add: map_of_eq_None_iff)
  have l1: "map_of (bet db1) new_id = Some nb"
    using h(13) by (simp add: b1 map_add_def)
  have d1: "distinct (map fst (bet (db1\<lparr>event := E\<rparr>)))"
    using dist fresh by (simp add: b1)
  have "bet db2 =
     map (\<lambda>(i, b). (i, if event_id b = eo
                        then (if outcome b = se_result q then set_won (payout_of b) later b
                              else set_lost later b)
                        else b)) (bet (db1\<lparr>event := E\<rparr>))"
    by (rule settle_event_bets[OF settled same d1])
  then have "map_of (bet db2) new_id =
     map_option (\<lambda>b. if event_id b = eo
                        then (if outcome b = se_result q then set_won (payout_of b) later b
                              else set_lost later b)
                        else b) (map_of (bet db1) new_id)"
    by (simp add: map_of_map)
  then have l2: "map_of (bet db2) new_id =
      Some (nb\<lparr>bet_status := ''won'',
              settled_payout := Some (round2 (fmul (pb_amount p) od)),
              bet_updated_at := Some later\<rparr>)"
    by (simp add: l1 win) (simp add: nb_def set_won_def payout_of_def)
  have "amount nb = Some (pb_amount p)" "odds_at_bet nb = Some od"
    by (simp_all add: nb_def)
  with bid l1 l2 show ?thesis by simp
qed

text \<open>
  Ann stakes 100 on Team Red at 1.9; the odds of Team Red are then changed to 5.0 and the
  event is settled for Team Red: the bet pays 190.0.
\<close>

theorem odds_at_bet_snapshot_witness:
  "place_bet (Some db_seed) bet1 1 ann_red = (Inr (bet1, Fin 190), Some db_ann)
   \<and> distinct (map fst (bet db_seed))
   \<and> oid (pb_event_id ann_red) = Inr ev1
   \<and> event db_seed ev1 = Some (seed_event 0)
   \<and> find (\<lambda>oc. name oc = Some (pb_outcome ann_red))
        (case outcomes (seed_event 0) of None \<Rightarrow> [] | Some os \<Rightarrow> os) =
      Some \<lparr>name = Some ''Team Red'', odds = Some (lit (19 / 10))\<rparr>
   \<and> find (\<lambda>oc. name oc = Some (pb_outcome ann_red))
        (case outcomes repriced_event of None \<Rightarrow> [] | Some os \<Rightarrow> os) =
      Some \<lparr>name = Some ''Team Red'', odds = Some (lit 5)\<rparr>
   \<and> settle_event (Some (db_ann\<lparr>event := repriced\<rparr>)) 3 red_wins =
      (Inr ''settled'', Some (db_repriced_settled 3))
   \<and> oid (se_event_id red_wins) = Inr ev1
   \<and> se_result red_wins = pb_outcome ann_red
   \<and> map_option odds_at_bet (map_of (bet db_ann) bet1) = Some (Some (lit (19 / 10)))
   \<and> map_option settled_payout (map_of (bet (db_repriced_settled 3)) bet1) =
      Some (Some (round2 (fmul (pb_amount ann_red) (lit (19 / 10)))))
   \<and> round2 (fmul (pb_amount ann_red) (lit (19 / 10))) = Fin 190"
proof -
  have h: "distinct (map fst (bet db_seed))"
    "oid (pb_event_id ann_red) = Inr ev1"
    "event db_seed ev1 = Some (seed_event 0)"
    "find (\<lambda>oc. name oc = Some (pb_outcome ann_red))
        (case outcomes (seed_event 0) of None \<Rightarrow> [] | Some os \<Rightarrow> os) =
      Some \<lparr>name = Some ''Team Red'', odds = Some (lit (19 / 10))\<rparr>"
    "odds \<lparr>name = Some ''Team Red'', odds = Some (lit (19 / 10))\<rparr> = Some (lit (19 / 10))"
    by (simp_all add: db_seed_def ann_red_def seed_event_def id_evals)
  have g: "oid (se_event_id red_wins) = Inr ev1" "se_result red_wins = pb_outcome ann_red"
    by (simp_all add: red_wins_def ann_red_def id_evals)
  have r: "find (\<lambda>oc. name oc = Some (pb_outcome ann_red))
        (case outcomes repriced_event of None \<Rightarrow> [] | Some os \<Rightarrow> os) =
      Some \<lparr>name = Some ''Team Red'', odds = Some (lit 5)\<rparr>"
    by (simp add: repriced_event_def ann_red_def)
  from odds_at_bet_snapshot[OF place_ann h settle_repriced g]
  obtain b where b: "map_of (bet db_ann) bet1 = Some b" "odds_at_bet b = Some (lit (19 / 10))"
    "map_of (bet (db_repriced_settled 3)) bet1 =
       Some (b\<lparr>bet_status := ''won'',
               settled_payout := Some (round2 (fmul (pb_amount ann_red) (lit (19 / 10)))),
               bet_updated_at := Some 3\<rparr>)"
    by blast
  have s: "map_option odds_at_bet (map_of (bet db_ann) bet1) = Some (Some (lit (19 / 10)))"
    "map_option settled_payout (map_of (bet (db_repriced_settled 3)) bet1) =
      Some (Some (round2 (fmul (pb_amount ann_red) (lit (19 / 10)))))"
    using b by simp_all
  have v: "round2 (fmul (pb_amount ann_red) (lit (19 / 10))) = Fin 190"
    by (simp add: ann_red_def float_evals del: round2.simps(1))
  from place_ann h g r settle_repriced s v show ?thesis by simp
qed

text \<open>
  Claim C8. The scenario of the specification, in binary floating point. The event has
  Team Red at 1.9, Draw at 3.2 and Team Blue at 2.1, and Ann has balance 1000. Her bet of
  100 on Team Red has potential payout exactly 190 and leaves her balance exactly 900;
  the settlement for Team Red sets the bet to \<open>won\<close> with settled payout exactly 190 and
  her balance to exactly 1090.
\<close>

theorem team_red_scenario:
  "event db_seed ev1 = Some (seed_event 0)
   \<and> map (\<lambda>oc. (name oc, odds oc)) (case outcomes (seed_event 0) of None \<Rightarrow> [] | Some os \<Rightarrow> os) =
       [(Some ''Team Red'', Some (lit (19 / 10))), (Some ''Draw'', Some (lit (32 / 10))),
        (Some ''Team Blue'', Some (lit (21 / 10)))]
   \<and> map_option balance (bettor db_seed ann) = Some (Some (lit 1000))
   \<and> ann_red = \<lparr>pb_bettor_id = ann, pb_event_id = ev1, pb_outcome = ''Team Red'',
                 pb_amount = lit 100\<rparr>
   \<and> place_bet (Some db_seed) bet1 1 ann_red = (Inr (bet1, Fin 190), Some db_ann)
   \<and> map_option (\<lambda>b. (bet_status b, potential_payout b)) (map_of (bet db_ann) bet1) =
       Some (''pending'', Fin 190)
   \<and> map_option balance (bettor db_ann ann) = Some (Some (Fin 900))
   \<and> red_wins = \<lparr>se_event_id = ev1, se_result = ''Team Red''\<rparr>
   \<and> settle_event (Some db_ann) 3 red_wins = (Inr ''settled'', Some (db_ann_settled 3))
   \<and> map_option (\<lambda>b. (bet_status b, settled_payout b)) (map_of (bet (db_ann_settled 3)) bet1) =
       Some (''won'', Some (Fin 190))
   \<and> map_option balance (bettor (db_ann_settled 3) ann) = Some (Some (Fin 1090))"
proof -
  have "event db_seed ev1 = Some (seed_event 0)"
    "map (\<lambda>oc. (name oc, odds oc)) (case outcomes (seed_event 0) of None \<Rightarrow> [] | Some os \<Rightarrow> os) =
       [(Some ''Team Red'', Some (lit (19 / 10))), (Some ''Draw'', Some (lit (32 / 10))),
        (Some ''Team Blue'', Some (lit (21 / 10)))]"
    "map_option balance (bettor db_seed ann) = Some (Some (lit 1000))"
    "map_option (\<lambda>b. (bet_status b, potential_payout b)) (map_of (bet db_ann) bet1) =
       Some (''pending'', Fin 190)"
    "map_option balance (bettor db_ann ann) = Some (Some (Fin 900))"
    "map_option (\<lambda>b. (bet_status b, settled_payout b)) (map_of (bet (db_ann_settled 3)) bet1) =
       Some (''won'', Some (Fin 190))"
    "map_option balance (bettor (db_ann_settled 3) ann) = Some (Some (Fin 1090))"
    by (simp_all add: db_seed_def db_ann_def db_ann_settled_def bettors_def seed_event_def
        bet_ann_def id_evals)
  with place_ann settle_ann show ?thesis
    by (simp add: ann_red_def red_wins_def)
qed

end
